theory Spec2Isabelle
  imports Complex_Main "HOL-Library.Sublist"
begin

section \<open>Data model of the match-computation pipeline\<close>

text \<open>
  The pipeline of \<^verbatim>\<open>celery_tasks.py\<close> works on Python dictionaries and on the models of
  \<^verbatim>\<open>models.py\<close>. Each dictionary shape is a record whose fields are the keys the code
  reads; since several shapes share key names, the fields carry a short prefix.
  Identifiers, names, categories and messages, which the code only copies and compares,
  are strings; counts are Python integers. Text whose characters the code inspects or
  assembles (the bio, the interest tags, the embedding payload) is a Python \<^verbatim>\<open>str\<close>:
  a list of Unicode code points.
  A Python \<^verbatim>\<open>float\<close> score is a real number: the code only compares scores with the
  literals \<^verbatim>\<open>0.87\<close> and \<^verbatim>\<open>0.55\<close> and copies them, and the order of finite floats is the
  order of the reals they denote.
\<close>

type_synonym embedding = "real list"

type_synonym py_str = "nat list"

text \<open>A string literal of the source as a \<^verbatim>\<open>str\<close>.\<close>

definition of_ascii :: "string \<Rightarrow> py_str" where
  "of_ascii s = map of_char s"

text \<open>The \<^verbatim>\<open>user_data\<close> dictionary handed to the task.\<close>

record user_data =
  ud_user_id :: string
  ud_bio :: py_str
  ud_interest_tags :: "py_str list"
  ud_city :: string
  ud_timezone :: string

text \<open>
  A row of \<^verbatim>\<open>filter_communities_by_location\<close>: the vector-search branch indexes all
  five keys (\<^verbatim>\<open>sql_data["recent_activity"]\<close> included).
\<close>

record community_row =
  cr_community_id :: string
  cr_community_name :: string
  cr_category :: string
  cr_member_count :: int
  cr_recent_activity :: int

text \<open>
  A row of \<^verbatim>\<open>get_popular_communities\<close>: the fallback branch reads
  \<^verbatim>\<open>c.get("recent_activity", 0)\<close>, so that key may be absent.
\<close>

record popular_row =
  pr_community_id :: string
  pr_community_name :: string
  pr_category :: string
  pr_member_count :: int
  pr_recent_activity :: "int option"

text \<open>An entry of the result of \<^verbatim>\<open>vector_search\<close>.\<close>

record vector_match =
  vm_community_id :: string
  vm_match_score :: real

text \<open>The dictionary appended to \<^verbatim>\<open>enriched_results\<close> by the merge loop.\<close>

record enriched =
  em_community_id :: string
  em_community_name :: string
  em_category :: string
  em_match_score :: real
  em_member_count :: int
  em_recent_activity :: int

text \<open>
  Modelled from the spec: \<^verbatim>\<open>models.py\<close> (\<^verbatim>\<open>MatchTier\<close>, \<^verbatim>\<open>CommunityMatch\<close>,
  \<^verbatim>\<open>MatchResult\<close>) is not among the sources. The tier is the closed enumeration
  SOULMATE, EXPLORER, FALLBACK; a community match has the six keys of the success
  payload; a match result has task id, user id, tier, matches and processing time.
\<close>

datatype MatchTier = SOULMATE | EXPLORER | FALLBACK

record CommunityMatch =
  cm_community_id :: string
  cm_community_name :: string
  cm_category :: string
  cm_match_score :: real
  cm_member_count :: int
  cm_recent_activity :: int

record MatchResult =
  mr_task_id :: string
  mr_user_id :: string
  mr_tier :: MatchTier
  mr_matches :: "CommunityMatch list"
  mr_processing_time_ms :: int

text \<open>
  What the task returns: the dump of a \<^verbatim>\<open>MatchResult\<close>, or the failure dictionary
  with the keys \<^verbatim>\<open>task_id\<close>, \<^verbatim>\<open>status\<close> and \<^verbatim>\<open>error\<close>.
\<close>

datatype payload =
  MatchResultDump MatchResult
| FailureDict (fd_task_id: string) (fd_status: string) (fd_error: string)

text \<open>
  An instance of Python's \<^verbatim>\<open>Exception\<close>, as caught by \<^verbatim>\<open>except Exception\<close>;
  \<open>exn_str\<close> is what \<^verbatim>\<open>str(e)\<close> returns.
\<close>

datatype exn = Exception (exn_str: string)

section \<open>Collaborators and their calls\<close>

text \<open>
  The AI provider, the stores and the cache are outside the sources. Each call either
  raises or returns, so a collaborator is a function into \<open>exn + 'a\<close>. Two more things
  come from the runtime and are fields of the environment as well:
  \<^item> \<open>elapsed_ms\<close>, the integer \<^verbatim>\<open>int((time.time() - start_time) * 1000)\<close> that the
    interpreter computes in floating point from its two clock readings;
  \<^item> the Unicode tables that \<^verbatim>\<open>\b\<close> and \<^verbatim>\<open>\d\<close> of the \<^verbatim>\<open>re\<close> module consult on a
    \<^verbatim>\<open>str\<close>: \<open>unicode_decimal\<close> (a decimal digit) and \<open>unicode_alnum\<close> (any other
    alphanumeric character). They are consulted for code points from 128 on; the ASCII
    range is written out below.
\<close>

record collaborators =
  chat_enrich :: "py_str \<Rightarrow> py_str list \<Rightarrow> exn + (py_str \<times> py_str list \<times> bool)"
  generate_embedding :: "py_str \<Rightarrow> exn + embedding"
  set_user_vector :: "string \<Rightarrow> embedding \<Rightarrow> exn + unit"
  filter_communities_by_location :: "string \<Rightarrow> string \<Rightarrow> exn + community_row list"
  get_popular_communities :: "exn + popular_row list"
  vector_search :: "embedding \<Rightarrow> string list \<Rightarrow> nat \<Rightarrow> exn + vector_match list"
  publish_match_result :: "string \<Rightarrow> payload \<Rightarrow> exn + unit"
  elapsed_ms :: int
  unicode_decimal :: "nat \<Rightarrow> bool"
  unicode_alnum :: "nat \<Rightarrow> bool"

text \<open>The calls a run makes, in order, are recorded in a log.\<close>

datatype call =
  CallChat py_str "py_str list"
| CallEmbedding py_str
| CallSetUserVector string embedding
| CallFilter string string
| CallPopular
| CallVectorSearch embedding "string list" nat
| CallPublish string payload

type_synonym 'a eff = "call list \<Rightarrow> (exn + 'a) \<times> call list"

definition returns :: "'a \<Rightarrow> 'a eff" where
  "returns a calls = (Inr a, calls)"

definition and_then :: "'a eff \<Rightarrow> ('a \<Rightarrow> 'b eff) \<Rightarrow> 'b eff" where
  "and_then m f calls =
     (case m calls of
        (Inl e, calls') \<Rightarrow> (Inl e, calls')
      | (Inr a, calls') \<Rightarrow> f a calls')"

definition invoke :: "call \<Rightarrow> exn + 'a \<Rightarrow> 'a eff" where
  "invoke c r calls = (r, calls @ [c])"

section \<open>The merge loop\<close>

text \<open>
  \<^verbatim>\<open>community_map = {c["community_id"]: c for c in communities}\<close>: a later row
  with the same id replaces an earlier one.
\<close>

fun community_map_of :: "community_row list \<Rightarrow> (string \<rightharpoonup> community_row)" where
  "community_map_of [] = Map.empty"
| "community_map_of (c # cs) =
     (\<lambda>k. case community_map_of cs k of
             Some r \<Rightarrow> Some r
           | None \<Rightarrow> (if k = cr_community_id c then Some c else None))"

definition enrich :: "vector_match \<Rightarrow> community_row \<Rightarrow> enriched" where
  "enrich v sql_data =
     \<lparr> em_community_id = vm_community_id v,
       em_community_name = cr_community_name sql_data,
       em_category = cr_category sql_data,
       em_match_score = vm_match_score v,
       em_member_count = cr_member_count sql_data,
       em_recent_activity = cr_recent_activity sql_data \<rparr>"

text \<open>The loop over \<^verbatim>\<open>vector_results\<close>, appending to \<^verbatim>\<open>enriched_results\<close>.\<close>

fun merge_loop ::
  "(string \<rightharpoonup> community_row) \<Rightarrow> vector_match list \<Rightarrow> enriched list \<Rightarrow> enriched list" where
  "merge_loop community_map [] enriched_results = enriched_results"
| "merge_loop community_map (v # vs) enriched_results =
     (case community_map (vm_community_id v) of
        Some sql_data \<Rightarrow> merge_loop community_map vs (enriched_results @ [enrich v sql_data])
      | None \<Rightarrow> merge_loop community_map vs enriched_results)"

section \<open>The diversity pass\<close>

text \<open>\<^verbatim>\<open>matches.pop(i)\<close> and \<^verbatim>\<open>matches.insert(2, diverse)\<close> on a list.\<close>

definition list_pop :: "nat \<Rightarrow> 'a list \<Rightarrow> 'a list" where
  "list_pop i xs = take i xs @ drop (Suc i) xs"

definition list_insert :: "nat \<Rightarrow> 'a \<Rightarrow> 'a list \<Rightarrow> 'a list" where
  "list_insert i x xs = take i xs @ x # drop i xs"

text \<open>
  The loop \<^verbatim>\<open>for i in range(3, len(matches))\<close> with its \<^verbatim>\<open>break\<close>: the list is
  changed only in the iteration that leaves the loop.
\<close>

function diversity_scan :: "string \<Rightarrow> nat \<Rightarrow> enriched list \<Rightarrow> enriched list" where
  "diversity_scan dominant i matches =
     (if i < length matches then
        (if em_category (matches ! i) \<noteq> dominant
         then list_insert 2 (matches ! i) (list_pop i matches)
         else diversity_scan dominant (Suc i) matches)
      else matches)"
  by pat_completeness auto
termination
  by (relation "measure (\<lambda>(dominant, i, matches). length matches - i)") auto

declare diversity_scan.simps [simp del]

definition apply_diversity :: "enriched list \<Rightarrow> enriched list" where
  "apply_diversity matches =
     (if length matches < 4 then matches
      else
        let top_categories = map em_category (take 3 matches) in
        if length (remdups top_categories) = 1
        then diversity_scan (top_categories ! 0) 3 matches
        else matches)"

section \<open>Tier and result\<close>

text \<open>The \<^verbatim>\<open>if\<close>/\<^verbatim>\<open>elif\<close>/\<^verbatim>\<open>else\<close> on \<^verbatim>\<open>top_score\<close>.\<close>

definition tier_of_top_score :: "real \<Rightarrow> MatchTier" where
  "tier_of_top_score top_score =
     (if top_score > 0.87 then SOULMATE
      else if top_score < 0.55 then FALLBACK
      else EXPLORER)"

text \<open>\<^verbatim>\<open>CommunityMatch(**m)\<close> for a merged dictionary.\<close>

definition CommunityMatch_of_enriched :: "enriched \<Rightarrow> CommunityMatch" where
  "CommunityMatch_of_enriched m =
     \<lparr> cm_community_id = em_community_id m,
       cm_community_name = em_community_name m,
       cm_category = em_category m,
       cm_match_score = em_match_score m,
       cm_member_count = em_member_count m,
       cm_recent_activity = em_recent_activity m \<rparr>"

text \<open>The \<^verbatim>\<open>CommunityMatch\<close> built from a popular row on the fallback branch.\<close>

definition CommunityMatch_of_popular :: "popular_row \<Rightarrow> CommunityMatch" where
  "CommunityMatch_of_popular c =
     \<lparr> cm_community_id = pr_community_id c,
       cm_community_name = pr_community_name c,
       cm_category = pr_category c,
       cm_match_score = 0.0,
       cm_member_count = pr_member_count c,
       cm_recent_activity = (case pr_recent_activity c of Some a \<Rightarrow> a | None \<Rightarrow> 0) \<rparr>"

section \<open>Profile sanitisation\<close>

text \<open>
  \<^verbatim>\<open>_basic_pii_removal\<close> applies \<^verbatim>\<open>re.sub\<close> with two patterns. Both patterns are a
  sequence of items over character classes, so a pattern is a list of items.
  The bracketed classes of the patterns are ranges of ASCII characters.
\<close>

definition in_range :: "char \<Rightarrow> char \<Rightarrow> nat \<Rightarrow> bool" where
  "in_range lo hi c = (of_char lo \<le> c \<and> c \<le> of_char hi)"

definition one_of :: "string \<Rightarrow> nat \<Rightarrow> bool" where
  "one_of cs c = (c \<in> set (of_ascii cs))"

definition is_upper :: "nat \<Rightarrow> bool" where
  "is_upper c = in_range CHR ''A'' CHR ''Z'' c"

definition is_lower :: "nat \<Rightarrow> bool" where
  "is_lower c = in_range CHR ''a'' CHR ''z'' c"

definition is_ascii_digit :: "nat \<Rightarrow> bool" where
  "is_ascii_digit c = in_range CHR ''0'' CHR ''9'' c"

definition is_alpha :: "nat \<Rightarrow> bool" where
  "is_alpha c = (is_upper c \<or> is_lower c)"

text \<open>The classes \<^verbatim>\<open>[A-Za-z0-9._%+-]\<close>, \<^verbatim>\<open>[A-Za-z0-9.-]\<close> and \<^verbatim>\<open>[-.]\<close>.\<close>

definition is_local :: "nat \<Rightarrow> bool" where
  "is_local c = (is_alpha c \<or> is_ascii_digit c \<or> one_of ''._%+-'' c)"

definition is_domain :: "nat \<Rightarrow> bool" where
  "is_domain c = (is_alpha c \<or> is_ascii_digit c \<or> one_of ''.-'' c)"

definition is_sep :: "nat \<Rightarrow> bool" where
  "is_sep c = one_of ''-.'' c"

text \<open>
  On a \<^verbatim>\<open>str\<close>, \<^verbatim>\<open>\d\<close> is any Unicode decimal digit, and a word character (for
  \<^verbatim>\<open>\b\<close>) is any Unicode alphanumeric character or the underscore.
\<close>

definition is_digit :: "collaborators \<Rightarrow> nat \<Rightarrow> bool" where
  "is_digit W c = (is_ascii_digit c \<or> (128 \<le> c \<and> unicode_decimal W c))"

definition is_word :: "collaborators \<Rightarrow> nat \<Rightarrow> bool" where
  "is_word W c =
     (is_alpha c \<or> is_ascii_digit c \<or> one_of ''_'' c
      \<or> (128 \<le> c \<and> (unicode_alnum W c \<or> unicode_decimal W c)))"

datatype item =
  WordBoundary "nat \<Rightarrow> bool"
| One "nat \<Rightarrow> bool"
| Plus "nat \<Rightarrow> bool"
| AtLeast nat "nat \<Rightarrow> bool"
| Exactly nat "nat \<Rightarrow> bool"
| Optional "nat \<Rightarrow> bool"

text \<open>
  \<^verbatim>\<open>\b\<close> at position \<open>i\<close> of the text, for the word characters \<open>w\<close>: exactly one
  neighbour is a word character.
\<close>

definition word_before :: "(nat \<Rightarrow> bool) \<Rightarrow> py_str \<Rightarrow> nat \<Rightarrow> bool" where
  "word_before w s i = (0 < i \<and> i \<le> length s \<and> w (s ! (i - 1)))"

definition word_at :: "(nat \<Rightarrow> bool) \<Rightarrow> py_str \<Rightarrow> nat \<Rightarrow> bool" where
  "word_at w s i = (i < length s \<and> w (s ! i))"

definition at_boundary :: "(nat \<Rightarrow> bool) \<Rightarrow> py_str \<Rightarrow> nat \<Rightarrow> bool" where
  "at_boundary w s i = (word_before w s i \<noteq> word_at w s i)"

text \<open>How many characters from position \<open>i\<close> on are in the class.\<close>

definition run_length :: "(nat \<Rightarrow> bool) \<Rightarrow> py_str \<Rightarrow> nat \<Rightarrow> nat" where
  "run_length p s i = length (takeWhile p (drop i s))"

text \<open>
  The positions at which an item started at \<open>i\<close> can end, in the order in which a
  backtracking matcher tries them: a greedy repetition tries the longest run first.
\<close>

fun item_ends :: "item \<Rightarrow> py_str \<Rightarrow> nat \<Rightarrow> nat list" where
  "item_ends (WordBoundary w) s i = (if at_boundary w s i then [i] else [])"
| "item_ends (One p) s i = (if 1 \<le> run_length p s i then [i + 1] else [])"
| "item_ends (Plus p) s i = rev [i + 1 ..< i + run_length p s i + 1]"
| "item_ends (AtLeast k p) s i = rev [i + k ..< i + run_length p s i + 1]"
| "item_ends (Exactly k p) s i = (if k \<le> run_length p s i then [i + k] else [])"
| "item_ends (Optional p) s i = (if 1 \<le> run_length p s i then [i + 1, i] else [i])"

fun match_ends :: "item list \<Rightarrow> py_str \<Rightarrow> nat \<Rightarrow> nat list" where
  "match_ends [] s i = [i]"
| "match_ends (a # as) s i = concat (map (match_ends as s) (item_ends a s i))"

text \<open>The match found at a position is the first one in that order.\<close>

definition match_at :: "item list \<Rightarrow> py_str \<Rightarrow> nat \<Rightarrow> nat option" where
  "match_at pat s i = (case match_ends pat s i of [] \<Rightarrow> None | e # _ \<Rightarrow> Some e)"

text \<open>
  \<^verbatim>\<open>re.sub(pattern, repl, text)\<close>: the text is scanned from the left; a match is
  replaced and the scan goes on at its end; a character at which nothing matches is
  copied. (An empty match, which neither pattern has, is replaced and the scan moves one
  character on.)
\<close>

function sub_from :: "item list \<Rightarrow> py_str \<Rightarrow> py_str \<Rightarrow> nat \<Rightarrow> py_str" where
  "sub_from pat repl s pos =
     (if pos < length s then
        (case match_at pat s pos of
           None \<Rightarrow> s ! pos # sub_from pat repl s (Suc pos)
         | Some e \<Rightarrow>
             if pos < e then repl @ sub_from pat repl s e
             else repl @ s ! pos # sub_from pat repl s (Suc pos))
      else
        (case match_at pat s pos of None \<Rightarrow> [] | Some e \<Rightarrow> repl))"
  by pat_completeness auto
termination
  by (relation "measure (\<lambda>(pat, repl, s, pos). length s - pos)") auto

declare sub_from.simps [simp del]

definition re_sub :: "item list \<Rightarrow> py_str \<Rightarrow> py_str \<Rightarrow> py_str" where
  "re_sub pat repl s = sub_from pat repl s 0"

text \<open>\<^verbatim>\<open>\b[A-Za-z0-9._%+-]+@[A-Za-z0-9.-]+\.[A-Za-z]{2,}\b\<close>\<close>

definition email_pattern :: "collaborators \<Rightarrow> item list" where
  "email_pattern W =
     [WordBoundary (is_word W), Plus is_local, One (one_of ''@''), Plus is_domain,
      One (one_of ''.''), AtLeast 2 is_alpha, WordBoundary (is_word W)]"

text \<open>\<^verbatim>\<open>\b\d{3}[-.]?\d{3}[-.]?\d{4}\b\<close>\<close>

definition phone_pattern :: "collaborators \<Rightarrow> item list" where
  "phone_pattern W =
     [WordBoundary (is_word W), Exactly 3 (is_digit W), Optional is_sep, Exactly 3 (is_digit W),
      Optional is_sep, Exactly 4 (is_digit W), WordBoundary (is_word W)]"

definition basic_pii_removal :: "collaborators \<Rightarrow> py_str \<Rightarrow> py_str" where
  "basic_pii_removal W text0 =
     (let text1 = re_sub (email_pattern W) (of_ascii ''[email removed]'') text0;
          text2 = re_sub (phone_pattern W) (of_ascii ''[phone removed]'') text1
      in text2)"

text \<open>
  \<^verbatim>\<open>sanitize_and_enrich_profile\<close>: the \<^verbatim>\<open>try\<close> block (the chat completion, the
  parsing of its answer and the three key lookups) is the collaborator \<open>chat_enrich\<close>;
  the \<^verbatim>\<open>except Exception\<close> branch is the fallback.
\<close>

definition sanitize_and_enrich_profile ::
  "collaborators \<Rightarrow> py_str \<Rightarrow> py_str list \<Rightarrow> (py_str \<times> py_str list \<times> bool) eff" where
  "sanitize_and_enrich_profile W bio interest_tags calls =
     (case chat_enrich W bio interest_tags of
        Inr result \<Rightarrow> (Inr result, calls @ [CallChat bio interest_tags])
      | Inl e \<Rightarrow>
          (Inr (basic_pii_removal W bio, interest_tags, False),
           calls @ [CallChat bio interest_tags]))"

text \<open>\<^verbatim>\<open>", ".join(tags)\<close> and \<^verbatim>\<open>create_embedding_payload\<close>.\<close>

fun join :: "py_str \<Rightarrow> py_str list \<Rightarrow> py_str" where
  "join sep [] = []"
| "join sep [x] = x"
| "join sep (x # y # ys) = x @ sep @ join sep (y # ys)"

definition create_embedding_payload :: "py_str \<Rightarrow> py_str list \<Rightarrow> py_str" where
  "create_embedding_payload bio tags =
     (let tags_text = join (of_ascii '', '') tags
      in of_ascii ''Bio: '' @ bio @ of_ascii [CHR 0x0A] @ of_ascii ''Interests: '' @ tags_text)"

section \<open>The task\<close>

text \<open>
  The body of the \<^verbatim>\<open>try\<close> block of \<^verbatim>\<open>process_match_task\<close>. A collaborator that
  raises ends the body with \<open>Inl\<close>; the two \<^verbatim>\<open>return\<close> statements inside the block and
  the one at its end are the \<open>returns\<close>.
\<close>

definition fallback_result :: "collaborators \<Rightarrow> string \<Rightarrow> user_data \<Rightarrow> popular_row list \<Rightarrow> MatchResult" where
  "fallback_result W task_id ud popular =
     \<lparr> mr_task_id = task_id,
       mr_user_id = ud_user_id ud,
       mr_tier = FALLBACK,
       mr_matches = map CommunityMatch_of_popular popular,
       mr_processing_time_ms = elapsed_ms W \<rparr>"

definition ranked_result :: "collaborators \<Rightarrow> string \<Rightarrow> user_data \<Rightarrow> enriched list \<Rightarrow> MatchResult" where
  "ranked_result W task_id ud enriched_results =
     (let top_score = em_match_score (enriched_results ! 0);
          tier = tier_of_top_score top_score;
          matches = map CommunityMatch_of_enriched (take 5 enriched_results)
      in \<lparr> mr_task_id = task_id,
           mr_user_id = ud_user_id ud,
           mr_tier = tier,
           mr_matches = matches,
           mr_processing_time_ms = elapsed_ms W \<rparr>)"

definition try_block :: "collaborators \<Rightarrow> string \<Rightarrow> user_data \<Rightarrow> payload eff" where
  "try_block W task_id ud =
     and_then (sanitize_and_enrich_profile W (ud_bio ud) (ud_interest_tags ud))
       (\<lambda>(sanitized_bio, enriched_tags, pii_removed).
     let embedding_text = create_embedding_payload sanitized_bio enriched_tags in
     and_then (invoke (CallEmbedding embedding_text) (generate_embedding W embedding_text))
       (\<lambda>user_vector.
     and_then (invoke (CallSetUserVector (ud_user_id ud) user_vector)
                 (set_user_vector W (ud_user_id ud) user_vector))
       (\<lambda>_.
     and_then (invoke (CallFilter (ud_city ud) (ud_timezone ud))
                 (filter_communities_by_location W (ud_city ud) (ud_timezone ud)))
       (\<lambda>communities.
     if communities = [] then
       and_then (invoke CallPopular (get_popular_communities W))
         (\<lambda>popular.
       returns (MatchResultDump (fallback_result W task_id ud popular)))
     else
       let community_ids = map cr_community_id communities in
       and_then (invoke (CallVectorSearch user_vector community_ids 10)
                   (vector_search W user_vector community_ids 10))
         (\<lambda>vector_results.
       let community_map = community_map_of communities;
           enriched_results = merge_loop community_map vector_results []
       in
       if enriched_results = [] then
         returns (FailureDict task_id ''failed'' ''No matching communities after merge'')
       else
         let enriched_results = apply_diversity enriched_results;
             result = ranked_result W task_id ud enriched_results
         in
         and_then (invoke (CallPublish (ud_user_id ud) (MatchResultDump result))
                     (publish_match_result W (ud_user_id ud) (MatchResultDump result)))
           (\<lambda>_.
         returns (MatchResultDump result)))))))"

text \<open>
  \<^verbatim>\<open>process_match_task\<close>: the \<^verbatim>\<open>try\<close> block and its \<^verbatim>\<open>except Exception\<close> handler.
  The result is the returned payload and the calls made.
\<close>

definition process_match_task :: "collaborators \<Rightarrow> string \<Rightarrow> user_data \<Rightarrow> payload \<times> call list" where
  "process_match_task W task_id ud =
     (case try_block W task_id ud [] of
        (Inr p, calls) \<Rightarrow> (p, calls)
      | (Inl e, calls) \<Rightarrow> (FailureDict task_id ''failed'' (exn_str e), calls))"

section \<open>Sample data\<close>

text \<open>Concrete inputs at which the theorems below are instantiated.\<close>

definition sample_match :: "string \<Rightarrow> real \<Rightarrow> enriched" where
  "sample_match c x = \<lparr> em_community_id = c, em_community_name = c, em_category = c, em_match_score = x,
       em_member_count = 1, em_recent_activity = 0 \<rparr>"

definition sample_user :: user_data where
  "sample_user =
     \<lparr> ud_user_id = ''u1'', ud_bio = of_ascii ''I like chess'',
       ud_interest_tags = [of_ascii ''chess''],
       ud_city = ''Austin'', ud_timezone = ''CST'' \<rparr>"

definition sample_row :: "string \<Rightarrow> string \<Rightarrow> community_row" where
  "sample_row k c =
     \<lparr> cr_community_id = k, cr_community_name = k, cr_category = c,
       cr_member_count = 10, cr_recent_activity = 3 \<rparr>"

definition sample_popular :: "string \<Rightarrow> popular_row" where
  "sample_popular k =
     \<lparr> pr_community_id = k, pr_community_name = k, pr_category = ''P'',
       pr_member_count = 50, pr_recent_activity = None \<rparr>"

definition sample_vm :: "string \<Rightarrow> real \<Rightarrow> vector_match" where
  "sample_vm k x = \<lparr> vm_community_id = k, vm_match_score = x \<rparr>"

definition scored_world :: "real \<Rightarrow> collaborators" where
  "scored_world x =
     \<lparr> chat_enrich = (\<lambda>b t. Inr (b, t @ [of_ascii ''games''], False)),
       generate_embedding = (\<lambda>t. Inr [0.1, 0.2]),
       set_user_vector = (\<lambda>u v. Inr ()),
       filter_communities_by_location =
         (\<lambda>c z. Inr [sample_row ''c1'' ''A'', sample_row ''c2'' ''A'', sample_row ''c3'' ''A'',
                    sample_row ''c4'' ''B'', sample_row ''c5'' ''C'', sample_row ''c6'' ''D'']),
       get_popular_communities =
         Inr [sample_popular ''p1'', sample_popular ''p2'', sample_popular ''p3'',
              sample_popular ''p4'', sample_popular ''p5'', sample_popular ''p6''],
       vector_search =
         (\<lambda>q ids k. Inr [sample_vm ''c1'' x, sample_vm ''c2'' 0.50, sample_vm ''zz'' 0.49,
                         sample_vm ''c3'' 0.48, sample_vm ''c4'' 0.47, sample_vm ''c5'' 0.46,
                         sample_vm ''c6'' 0.45]),
       publish_match_result = (\<lambda>u p. Inr ()),
       elapsed_ms = 250,
       unicode_decimal = (\<lambda>c. 0x660 \<le> c \<and> c \<le> 0x669),
       unicode_alnum = (\<lambda>c. c = 0xE9) \<rparr>"

definition sample_world :: collaborators where
  "sample_world = scored_world 0.91"

definition empty_city_world :: collaborators where
  "empty_city_world = sample_world \<lparr> filter_communities_by_location := (\<lambda>c z. Inr []) \<rparr>"

definition cache_down_world :: collaborators where
  "cache_down_world = sample_world \<lparr> set_user_vector := (\<lambda>u v. Inl (Exception ''cache down'')) \<rparr>"

definition publish_down_world :: collaborators where
  "publish_down_world =
     sample_world \<lparr> publish_match_result := (\<lambda>u p. Inl (Exception ''broker down'')) \<rparr>"

definition silent_embedding_world :: collaborators where
  "silent_embedding_world = sample_world \<lparr> generate_embedding := (\<lambda>t. Inl (Exception [])) \<rparr>"

definition embedding_down_world :: collaborators where
  "embedding_down_world =
     sample_world \<lparr> generate_embedding := (\<lambda>t. Inl (Exception ''embedding provider unavailable'')) \<rparr>"


definition no_overlap_world :: collaborators where
  "no_overlap_world =
     sample_world \<lparr> vector_search := (\<lambda>q ids k. Inr [sample_vm ''x1'' 0.9, sample_vm ''x2'' 0.8]) \<rparr>"

section \<open>Evaluation\<close>

text \<open>The equations with which a run on concrete data is computed.\<close>

lemmas run_defs =
  process_match_task_def try_block_def and_then_def invoke_def returns_def Let_def
  sanitize_and_enrich_profile_def create_embedding_payload_def
  fallback_result_def ranked_result_def
  CommunityMatch_of_popular_def CommunityMatch_of_enriched_def tier_of_top_score_def
  apply_diversity_def diversity_scan.simps list_insert_def list_pop_def enrich_def

lemmas sample_defs =
  sample_world_def scored_world_def sample_user_def sample_row_def sample_popular_def sample_vm_def

section \<open>Properties of the diversity pass\<close>

lemma diversity_scan_none:
  "\<forall>j. i \<le> j \<and> j < length ms \<longrightarrow> em_category (ms ! j) = d \<Longrightarrow> diversity_scan d i ms = ms"
proof (induction d i ms rule: diversity_scan.induct)
  case (1 d i ms)
  show ?case
  proof (cases "i < length ms")
    case True
    with "1.prems" have c: "em_category (ms ! i) = d" by simp
    have "diversity_scan d (Suc i) ms = ms"
      using "1.IH" True c "1.prems" by simp
    with True c show ?thesis by (subst diversity_scan.simps) simp
  next
    case False
    then show ?thesis by (subst diversity_scan.simps) simp
  qed
qed

lemma diversity_scan_found:
  "i \<le> k \<Longrightarrow> k < length ms \<Longrightarrow> em_category (ms ! k) \<noteq> d \<Longrightarrow>
   \<forall>j. i \<le> j \<and> j < k \<longrightarrow> em_category (ms ! j) = d \<Longrightarrow>
   diversity_scan d i ms = list_insert 2 (ms ! k) (list_pop k ms)"
proof (induction d i ms rule: diversity_scan.induct)
  case (1 d i ms)
  show ?case
  proof (cases "i = k")
    case True
    with "1.prems" show ?thesis by (subst diversity_scan.simps) simp
  next
    case False
    with "1.prems" have lt: "i < k" and c: "em_category (ms ! i) = d" by simp_all
    have "diversity_scan d (Suc i) ms = list_insert 2 (ms ! k) (list_pop k ms)"
      using "1.IH" lt c "1.prems" by simp
    with lt c "1.prems" show ?thesis by (subst diversity_scan.simps) simp
  qed
qed

lemma insert_pop_shape:
  "3 \<le> k \<Longrightarrow> k < length ms \<Longrightarrow>
   list_insert 2 (ms ! k) (list_pop k ms) = take 2 ms @ ms ! k # drop 2 (take k ms) @ drop (Suc k) ms"
  by (simp add: list_insert_def list_pop_def min_def)

lemma top3_remdups:
  "3 \<le> length ms \<Longrightarrow>
   (length (remdups (map f (take 3 ms))) = 1) = (f (ms ! 0) = f (ms ! 1) \<and> f (ms ! 1) = f (ms ! 2))"
proof -
  assume "3 \<le> length ms"
  then obtain a b c r where "ms = a # b # c # r"
    by (metis One_nat_def Suc_le_length_iff numeral_3_eq_3)
  then show ?thesis by (auto simp: numeral_3_eq_3)
qed

lemma first_diverse_exists:
  assumes "\<not> (\<forall>j\<in>{3..<length ms}. em_category (ms ! j) = d)"
  shows "\<exists>i. 3 \<le> i \<and> i < length ms \<and> em_category (ms ! i) \<noteq> d \<and>
             (\<forall>j\<in>{3..<i}. em_category (ms ! j) = d)"
proof -
  define P where "P i \<longleftrightarrow> 3 \<le> i \<and> i < length ms \<and> em_category (ms ! i) \<noteq> d" for i
  from assms have ex: "\<exists>i. P i" by (auto simp: P_def)
  define k where "k = (LEAST i. P i)"
  have Pk: "P k" unfolding k_def using ex by (rule LeastI_ex)
  have "\<forall>j\<in>{3..<k}. em_category (ms ! j) = d"
  proof
    fix j assume j: "j \<in> {3..<k}"
    then have "\<not> P j" unfolding k_def using not_less_Least by auto
    with j Pk show "em_category (ms ! j) = d" by (auto simp: P_def)
  qed
  with Pk show ?thesis by (auto simp: P_def)
qed

lemma apply_diversity_unchanged:
  "length ms < 4 \<or> \<not> (em_category (ms ! 0) = em_category (ms ! 1) \<and> em_category (ms ! 1) = em_category (ms ! 2))
     \<or> (\<forall>j\<in>{3..<length ms}. em_category (ms ! j) = em_category (ms ! 0))
   \<Longrightarrow> apply_diversity ms = ms"
proof (cases "length ms < 4")
  case True
  then show ?thesis by (simp add: apply_diversity_def)
next
  case False
  then have len: "3 \<le> length ms" by simp
  note t = top3_remdups [OF len, of em_category]
  assume "length ms < 4 \<or> \<not> (em_category (ms ! 0) = em_category (ms ! 1) \<and> em_category (ms ! 1) = em_category (ms ! 2))
     \<or> (\<forall>j\<in>{3..<length ms}. em_category (ms ! j) = em_category (ms ! 0))"
  with False consider
      (mixed) "\<not> (em_category (ms ! 0) = em_category (ms ! 1) \<and> em_category (ms ! 1) = em_category (ms ! 2))"
    | (rest) "em_category (ms ! 0) = em_category (ms ! 1) \<and> em_category (ms ! 1) = em_category (ms ! 2)"
        "\<forall>j\<in>{3..<length ms}. em_category (ms ! j) = em_category (ms ! 0)"
    by blast
  then show ?thesis
  proof cases
    case mixed
    with t have "length (remdups (map em_category (take 3 ms))) \<noteq> 1" by simp
    with False show ?thesis by (simp add: apply_diversity_def Let_def)
  next
    case rest
    have "diversity_scan (em_category (ms ! 0)) 3 ms = ms"
      using rest(2) by (intro diversity_scan_none) auto
    with False len show ?thesis by (simp add: apply_diversity_def Let_def)
  qed
qed

lemma apply_diversity_moved:
  assumes "4 \<le> length ms"
    and "em_category (ms ! 0) = em_category (ms ! 1)" "em_category (ms ! 1) = em_category (ms ! 2)"
    and "3 \<le> i" "i < length ms" "em_category (ms ! i) \<noteq> em_category (ms ! 0)"
    and "\<forall>j\<in>{3..<i}. em_category (ms ! j) = em_category (ms ! 0)"
  shows "apply_diversity ms = list_insert 2 (ms ! i) (list_pop i ms)"
proof -
  have "diversity_scan (em_category (ms ! 0)) 3 ms = list_insert 2 (ms ! i) (list_pop i ms)"
    using assms by (intro diversity_scan_found) auto
  moreover have "length (remdups (map em_category (take 3 ms))) = 1"
    using top3_remdups [of ms em_category] assms by simp
  ultimately show ?thesis using assms(1)
    by (simp add: apply_diversity_def Let_def)
qed

lemma moved_shape:
  assumes "3 \<le> i" "i < length ms"
  defines "R \<equiv> take 2 ms @ ms ! i # drop 2 (take i ms) @ drop (Suc i) ms"
  shows "R ! 0 = ms ! 0" "R ! 1 = ms ! 1" "R ! 2 = ms ! i" "R ! 3 = ms ! 2"
    "length R = length ms" "list_pop 2 R = list_pop i ms"
proof -
  from assms(1,2) obtain a b c r where ms: "ms = a # b # c # r"
    by (metis Suc_le_length_iff le_trans less_imp_le_nat numeral_3_eq_3)
  from assms(1) obtain i' where i: "i = Suc (Suc (Suc i'))"
    by (metis Suc_le_D numeral_3_eq_3 Suc_le_mono)
  show "R ! 0 = ms ! 0" "R ! 1 = ms ! 1" "R ! 2 = ms ! i" "R ! 3 = ms ! 2"
    using assms(2) by (simp_all add: R_def ms i numeral_2_eq_2 numeral_3_eq_3)
  show "length R = length ms" using assms(2) by (simp add: R_def ms i)
  show "list_pop 2 R = list_pop i ms"
    using assms(2) by (simp add: R_def ms i list_pop_def numeral_2_eq_2)
qed

text \<open>
  Claim C2. The diversity pass returns the list unchanged when it has fewer than four
  entries, when the categories at positions 0, 1 and 2 are not all equal, or when every
  entry from position 3 on has the category of the top three. Otherwise it takes the first
  entry at a position \<open>i \<ge> 3\<close> whose category differs from the dominant one out of its
  place and puts it at position 2: the former third entry is one slot further down, the
  top three are no longer of one category, and without the moved entry the list is the
  input without entry \<open>i\<close>, so all other entries keep their relative order.
\<close>

theorem apply_diversity_contract:
  "(length ms < 4
      \<or> \<not> (em_category (ms ! 0) = em_category (ms ! 1) \<and> em_category (ms ! 1) = em_category (ms ! 2))
      \<or> (\<forall>j\<in>{3..<length ms}. em_category (ms ! j) = em_category (ms ! 0))
    \<longrightarrow> apply_diversity ms = ms)
   \<and>
   (\<not> (length ms < 4
      \<or> \<not> (em_category (ms ! 0) = em_category (ms ! 1) \<and> em_category (ms ! 1) = em_category (ms ! 2))
      \<or> (\<forall>j\<in>{3..<length ms}. em_category (ms ! j) = em_category (ms ! 0)))
    \<longrightarrow> (\<exists>i. 3 \<le> i \<and> i < length ms
            \<and> em_category (ms ! i) \<noteq> em_category (ms ! 0)
            \<and> (\<forall>j\<in>{3..<i}. em_category (ms ! j) = em_category (ms ! 0))
            \<and> apply_diversity ms = list_insert 2 (ms ! i) (list_pop i ms)
            \<and> apply_diversity ms = take 2 ms @ ms ! i # drop 2 (take i ms) @ drop (Suc i) ms
            \<and> apply_diversity ms ! 3 = ms ! 2
            \<and> \<not> (em_category (apply_diversity ms ! 0) = em_category (apply_diversity ms ! 1)
                 \<and> em_category (apply_diversity ms ! 1) = em_category (apply_diversity ms ! 2))
            \<and> list_pop 2 (apply_diversity ms) = list_pop i ms))"
proof (intro conjI impI)
  assume "length ms < 4
      \<or> \<not> (em_category (ms ! 0) = em_category (ms ! 1) \<and> em_category (ms ! 1) = em_category (ms ! 2))
      \<or> (\<forall>j\<in>{3..<length ms}. em_category (ms ! j) = em_category (ms ! 0))"
  then show "apply_diversity ms = ms" by (rule apply_diversity_unchanged)
next
  assume a: "\<not> (length ms < 4
      \<or> \<not> (em_category (ms ! 0) = em_category (ms ! 1) \<and> em_category (ms ! 1) = em_category (ms ! 2))
      \<or> (\<forall>j\<in>{3..<length ms}. em_category (ms ! j) = em_category (ms ! 0)))"
  then have len: "4 \<le> length ms"
    and c01: "em_category (ms ! 0) = em_category (ms ! 1)"
    and c12: "em_category (ms ! 1) = em_category (ms ! 2)"
    and nr: "\<not> (\<forall>j\<in>{3..<length ms}. em_category (ms ! j) = em_category (ms ! 0))"
    by auto
  from first_diverse_exists [OF nr] obtain i where
    i: "3 \<le> i" "i < length ms" "em_category (ms ! i) \<noteq> em_category (ms ! 0)"
       "\<forall>j\<in>{3..<i}. em_category (ms ! j) = em_category (ms ! 0)"
    by blast
  have r1: "apply_diversity ms = list_insert 2 (ms ! i) (list_pop i ms)"
    using len c01 c12 i by (rule apply_diversity_moved)
  have r2: "apply_diversity ms = take 2 ms @ ms ! i # drop 2 (take i ms) @ drop (Suc i) ms"
    using r1 insert_pop_shape [OF i(1,2)] by simp
  note sh = moved_shape [OF i(1,2)]
  have "apply_diversity ms ! 3 = ms ! 2" using r2 sh(4) by simp
  moreover have "\<not> (em_category (apply_diversity ms ! 0) = em_category (apply_diversity ms ! 1)
                 \<and> em_category (apply_diversity ms ! 1) = em_category (apply_diversity ms ! 2))"
    using r2 sh(1,2,3) i(3) c01 by simp
  moreover have "list_pop 2 (apply_diversity ms) = list_pop i ms" using r2 sh(6) by simp
  ultimately show "\<exists>i. 3 \<le> i \<and> i < length ms
            \<and> em_category (ms ! i) \<noteq> em_category (ms ! 0)
            \<and> (\<forall>j\<in>{3..<i}. em_category (ms ! j) = em_category (ms ! 0))
            \<and> apply_diversity ms = list_insert 2 (ms ! i) (list_pop i ms)
            \<and> apply_diversity ms = take 2 ms @ ms ! i # drop 2 (take i ms) @ drop (Suc i) ms
            \<and> apply_diversity ms ! 3 = ms ! 2
            \<and> \<not> (em_category (apply_diversity ms ! 0) = em_category (apply_diversity ms ! 1)
                 \<and> em_category (apply_diversity ms ! 1) = em_category (apply_diversity ms ! 2))
            \<and> list_pop 2 (apply_diversity ms) = list_pop i ms"
    using i r1 r2 by blast
qed

text \<open>
  The theorem at the six matches with categories A, A, A, B, C, D: the entry of
  category B moves to position 2. At three matches nothing moves.
\<close>

theorem apply_diversity_contract_witness:
  "\<not> (length [sample_match ''A'' 0.91, sample_match ''A'' 0.80, sample_match ''A'' 0.78, sample_match ''B'' 0.70, sample_match ''C'' 0.60, sample_match ''D'' 0.50] < 4)
   \<and> map em_category (apply_diversity [sample_match ''A'' 0.91, sample_match ''A'' 0.80, sample_match ''A'' 0.78, sample_match ''B'' 0.70, sample_match ''C'' 0.60, sample_match ''D'' 0.50])
       = [''A'', ''A'', ''B'', ''A'', ''C'', ''D'']
   \<and> apply_diversity [sample_match ''A'' 0.91, sample_match ''A'' 0.80, sample_match ''A'' 0.78] = [sample_match ''A'' 0.91, sample_match ''A'' 0.80, sample_match ''A'' 0.78]"
proof -
  let ?ms = "[sample_match ''A'' 0.91, sample_match ''A'' 0.80, sample_match ''A'' 0.78, sample_match ''B'' 0.70, sample_match ''C'' 0.60, sample_match ''D'' 0.50]"
  have h: "\<not> (length ?ms < 4
      \<or> \<not> (em_category (?ms ! 0) = em_category (?ms ! 1) \<and> em_category (?ms ! 1) = em_category (?ms ! 2))
      \<or> (\<forall>j\<in>{3..<length ?ms}. em_category (?ms ! j) = em_category (?ms ! 0)))"
    by (auto simp: sample_match_def intro!: bexI [of _ 3])
  from apply_diversity_contract [of ?ms] h obtain i where
    i: "3 \<le> i" "i < length ?ms" "em_category (?ms ! i) \<noteq> em_category (?ms ! 0)"
       "\<forall>j\<in>{3..<i}. em_category (?ms ! j) = em_category (?ms ! 0)"
       "apply_diversity ?ms = take 2 ?ms @ ?ms ! i # drop 2 (take i ?ms) @ drop (Suc i) ?ms"
    by blast
  have "i = 3"
  proof (rule ccontr)
    assume "i \<noteq> 3"
    with i(1) have "3 \<in> {3..<i}" by simp
    with i(4) have "em_category (?ms ! 3) = em_category (?ms ! 0)" by blast
    then show False by (simp add: sample_match_def)
  qed
  with i(5) have "map em_category (apply_diversity ?ms) = [''A'', ''A'', ''B'', ''A'', ''C'', ''D'']"
    by (simp add: sample_match_def)
  moreover have "apply_diversity [sample_match ''A'' 0.91, sample_match ''A'' 0.80, sample_match ''A'' 0.78] = [sample_match ''A'' 0.91, sample_match ''A'' 0.80, sample_match ''A'' 0.78]"
    using apply_diversity_contract [of "[sample_match ''A'' 0.91, sample_match ''A'' 0.80, sample_match ''A'' 0.78]"] by simp
  ultimately show ?thesis by simp
qed

section \<open>Properties of the merge loop\<close>

lemma merge_loop_eq:
  "merge_loop cmap vs acc =
     acc @ map (\<lambda>v. enrich v (the (cmap (vm_community_id v))))
             (filter (\<lambda>v. vm_community_id v \<in> dom cmap) vs)"
proof (induction vs arbitrary: acc)
  case Nil
  show ?case by simp
next
  case (Cons v vs)
  show ?case
  proof (cases "cmap (vm_community_id v)")
    case None
    then show ?thesis using Cons.IH by (simp add: domIff)
  next
    case (Some c)
    then show ?thesis using Cons.IH by (simp add: domIff)
  qed
qed

lemma merge_loop_empty_iff:
  "merge_loop cmap vs [] = [] \<longleftrightarrow> (\<forall>v\<in>set vs. cmap (vm_community_id v) = None)"
  by (auto simp: merge_loop_eq filter_empty_conv domIff)

lemma merge_loop_length: "length (merge_loop cmap vs []) \<le> length vs"
  by (simp add: merge_loop_eq)

lemma community_map_of_Some:
  "community_map_of cs k = Some c \<Longrightarrow> c \<in> set cs \<and> cr_community_id c = k"
  by (induction cs) (auto split: option.splits if_splits)

lemma community_map_of_dom: "dom (community_map_of cs) = cr_community_id ` set cs"
proof (induction cs)
  case Nil
  show ?case by simp
next
  case (Cons c cs)
  have "dom (community_map_of (c # cs)) = insert (cr_community_id c) (dom (community_map_of cs))"
    by (auto simp: dom_def split: option.splits)
  with Cons show ?case by simp
qed

text \<open>
  Claim C10. For every vector-match list and candidate map the merged list is the result of
  filtering the ranker's output by membership of the community id in the map, in the
  ranker's order (so its id and score pairs are a subsequence of the ranker's); each
  entry has the id and the score of its vector match and the name, category, member
  count and recent activity of the candidate record stored under that id. For the map
  built from the candidate rows, the keys are the ids of the rows and every stored record
  is one of the rows.
\<close>

theorem merge_is_faithful_filter:
  "merge_loop community_map vector_results [] =
     map (\<lambda>v. enrich v (the (community_map (vm_community_id v))))
       (filter (\<lambda>v. vm_community_id v \<in> dom community_map) vector_results)
   \<and> map em_community_id (merge_loop community_map vector_results []) =
       filter (\<lambda>k. k \<in> dom community_map) (map vm_community_id vector_results)
   \<and> map em_match_score (merge_loop community_map vector_results []) =
       map vm_match_score (filter (\<lambda>v. vm_community_id v \<in> dom community_map) vector_results)
   \<and> subseq (map (\<lambda>m. (em_community_id m, em_match_score m)) (merge_loop community_map vector_results []))
       (map (\<lambda>v. (vm_community_id v, vm_match_score v)) vector_results)
   \<and> (\<forall>m\<in>set (merge_loop community_map vector_results []).
        \<exists>sql_data. community_map (em_community_id m) = Some sql_data
          \<and> em_community_name m = cr_community_name sql_data
          \<and> em_category m = cr_category sql_data
          \<and> em_member_count m = cr_member_count sql_data
          \<and> em_recent_activity m = cr_recent_activity sql_data)
   \<and> (\<forall>communities. community_map = community_map_of communities \<longrightarrow>
        dom community_map = cr_community_id ` set communities
        \<and> (\<forall>k c. community_map k = Some c \<longrightarrow> c \<in> set communities \<and> cr_community_id c = k))"
proof -
  let ?keep = "\<lambda>v. vm_community_id v \<in> dom community_map"
  let ?R = "merge_loop community_map vector_results []"
  have eq: "?R = map (\<lambda>v. enrich v (the (community_map (vm_community_id v)))) (filter ?keep vector_results)"
    by (simp add: merge_loop_eq)
  have ids: "map em_community_id ?R = filter (\<lambda>k. k \<in> dom community_map) (map vm_community_id vector_results)"
    by (simp add: eq enrich_def filter_map comp_def)
  have scores: "map em_match_score ?R = map vm_match_score (filter ?keep vector_results)"
    by (simp add: eq enrich_def comp_def)
  have "map (\<lambda>m. (em_community_id m, em_match_score m)) ?R =
        filter (\<lambda>p. fst p \<in> dom community_map) (map (\<lambda>v. (vm_community_id v, vm_match_score v)) vector_results)"
    by (simp add: eq enrich_def filter_map comp_def)
  then have sub: "subseq (map (\<lambda>m. (em_community_id m, em_match_score m)) ?R)
       (map (\<lambda>v. (vm_community_id v, vm_match_score v)) vector_results)"
    by simp
  have fields: "\<forall>m\<in>set ?R.
        \<exists>sql_data. community_map (em_community_id m) = Some sql_data
          \<and> em_community_name m = cr_community_name sql_data
          \<and> em_category m = cr_category sql_data
          \<and> em_member_count m = cr_member_count sql_data
          \<and> em_recent_activity m = cr_recent_activity sql_data"
    by (auto simp: eq enrich_def)
  have cm: "\<forall>communities. community_map = community_map_of communities \<longrightarrow>
        dom community_map = cr_community_id ` set communities
        \<and> (\<forall>k c. community_map k = Some c \<longrightarrow> c \<in> set communities \<and> cr_community_id c = k)"
    using community_map_of_dom community_map_of_Some by blast
  from eq ids scores sub fields cm show ?thesis by blast
qed

text \<open>
  The theorem at three vector matches, one of them outside a map of two rows.
\<close>

theorem merge_is_faithful_filter_witness:
  "merge_loop (community_map_of [sample_row ''c1'' ''A'', sample_row ''c2'' ''B''])
     [sample_vm ''c2'' 0.9, sample_vm ''zz'' 0.8, sample_vm ''c1'' 0.7] [] =
   [enrich (sample_vm ''c2'' 0.9) (sample_row ''c2'' ''B''),
    enrich (sample_vm ''c1'' 0.7) (sample_row ''c1'' ''A'')]"
proof -
  let ?m = "community_map_of [sample_row ''c1'' ''A'', sample_row ''c2'' ''B'']"
  have d: "dom ?m = {''c1'', ''c2''}"
    unfolding community_map_of_dom by (auto simp: sample_row_def)
  have "merge_loop ?m [sample_vm ''c2'' 0.9, sample_vm ''zz'' 0.8, sample_vm ''c1'' 0.7] [] =
      map (\<lambda>v. enrich v (the (?m (vm_community_id v))))
        (filter (\<lambda>v. vm_community_id v \<in> dom ?m)
           [sample_vm ''c2'' 0.9, sample_vm ''zz'' 0.8, sample_vm ''c1'' 0.7])"
    by (rule merge_is_faithful_filter [THEN conjunct1])
  also have "\<dots> = [enrich (sample_vm ''c2'' 0.9) (sample_row ''c2'' ''B''),
                    enrich (sample_vm ''c1'' 0.7) (sample_row ''c1'' ''A'')]"
    unfolding d by (simp add: sample_row_def sample_vm_def)
  finally show ?thesis .
qed

section \<open>The two branches of the task\<close>

lemma sanitize_calls:
  "sanitize_and_enrich_profile W b t calls = (r, calls') \<Longrightarrow> calls' = calls @ [CallChat b t]"
  by (auto simp: sanitize_and_enrich_profile_def split: sum.splits)

lemma try_block_fallback:
  assumes "sanitize_and_enrich_profile W (ud_bio ud) (ud_interest_tags ud) [] =
             (Inr (sanitized_bio, enriched_tags, pii_removed), calls0)"
    and "generate_embedding W (create_embedding_payload sanitized_bio enriched_tags) = Inr user_vector"
    and "set_user_vector W (ud_user_id ud) user_vector = Inr ()"
    and "filter_communities_by_location W (ud_city ud) (ud_timezone ud) = Inr []"
  shows "try_block W task_id ud [] =
     (case get_popular_communities W of
        Inl e \<Rightarrow> Inl e
      | Inr popular \<Rightarrow> Inr (MatchResultDump (fallback_result W task_id ud popular)),
      [CallChat (ud_bio ud) (ud_interest_tags ud),
       CallEmbedding (create_embedding_payload sanitized_bio enriched_tags),
       CallSetUserVector (ud_user_id ud) user_vector,
       CallFilter (ud_city ud) (ud_timezone ud),
       CallPopular])"
proof -
  have "calls0 = [CallChat (ud_bio ud) (ud_interest_tags ud)]"
    using sanitize_calls [OF assms(1)] by simp
  with assms show ?thesis
    by (simp add: try_block_def and_then_def invoke_def returns_def Let_def split: sum.splits)
qed

lemma try_block_ranked:
  assumes "sanitize_and_enrich_profile W (ud_bio ud) (ud_interest_tags ud) [] =
             (Inr (sanitized_bio, enriched_tags, pii_removed), calls0)"
    and "generate_embedding W (create_embedding_payload sanitized_bio enriched_tags) = Inr user_vector"
    and "set_user_vector W (ud_user_id ud) user_vector = Inr ()"
    and "filter_communities_by_location W (ud_city ud) (ud_timezone ud) = Inr communities"
    and "communities \<noteq> []"
    and "vector_search W user_vector (map cr_community_id communities) 10 = Inr vector_results"
  shows "try_block W task_id ud [] =
     (let calls5 =
        [CallChat (ud_bio ud) (ud_interest_tags ud),
         CallEmbedding (create_embedding_payload sanitized_bio enriched_tags),
         CallSetUserVector (ud_user_id ud) user_vector,
         CallFilter (ud_city ud) (ud_timezone ud),
         CallVectorSearch user_vector (map cr_community_id communities) 10];
        enriched_results = merge_loop (community_map_of communities) vector_results []
      in
      if enriched_results = [] then
        (Inr (FailureDict task_id ''failed'' ''No matching communities after merge''), calls5)
      else
        let result = ranked_result W task_id ud (apply_diversity enriched_results) in
        (case publish_match_result W (ud_user_id ud) (MatchResultDump result) of
           Inl e \<Rightarrow> Inl e
         | Inr u \<Rightarrow> Inr (MatchResultDump result),
         calls5 @ [CallPublish (ud_user_id ud) (MatchResultDump result)]))"
proof -
  have "calls0 = [CallChat (ud_bio ud) (ud_interest_tags ud)]"
    using sanitize_calls [OF assms(1)] by simp
  with assms show ?thesis
    by (simp add: try_block_def and_then_def invoke_def returns_def Let_def split: sum.splits)
qed

lemma apply_diversity_length: "length (apply_diversity ms) = length ms"
proof (cases "length ms < 4
      \<or> \<not> (em_category (ms ! 0) = em_category (ms ! 1) \<and> em_category (ms ! 1) = em_category (ms ! 2))
      \<or> (\<forall>j\<in>{3..<length ms}. em_category (ms ! j) = em_category (ms ! 0))")
  case True
  then show ?thesis by (simp add: apply_diversity_unchanged)
next
  case False
  then have "4 \<le> length ms"
    and "em_category (ms ! 0) = em_category (ms ! 1)" "em_category (ms ! 1) = em_category (ms ! 2)"
    and nr: "\<not> (\<forall>j\<in>{3..<length ms}. em_category (ms ! j) = em_category (ms ! 0))"
    by auto
  moreover from first_diverse_exists [OF nr] obtain i where
    i: "3 \<le> i" "i < length ms" "em_category (ms ! i) \<noteq> em_category (ms ! 0)"
       "\<forall>j\<in>{3..<i}. em_category (ms ! j) = em_category (ms ! 0)"
    by blast
  ultimately have "apply_diversity ms = list_insert 2 (ms ! i) (list_pop i ms)"
    by (intro apply_diversity_moved)
  with insert_pop_shape [OF i(1,2)] moved_shape(5) [OF i(1,2)] show ?thesis by simp
qed

lemma apply_diversity_head: "apply_diversity ms ! 0 = ms ! 0"
proof (cases "length ms < 4
      \<or> \<not> (em_category (ms ! 0) = em_category (ms ! 1) \<and> em_category (ms ! 1) = em_category (ms ! 2))
      \<or> (\<forall>j\<in>{3..<length ms}. em_category (ms ! j) = em_category (ms ! 0))")
  case True
  then show ?thesis by (simp add: apply_diversity_unchanged)
next
  case False
  then have "4 \<le> length ms"
    and "em_category (ms ! 0) = em_category (ms ! 1)" "em_category (ms ! 1) = em_category (ms ! 2)"
    and nr: "\<not> (\<forall>j\<in>{3..<length ms}. em_category (ms ! j) = em_category (ms ! 0))"
    by auto
  moreover from first_diverse_exists [OF nr] obtain i where
    i: "3 \<le> i" "i < length ms" "em_category (ms ! i) \<noteq> em_category (ms ! 0)"
       "\<forall>j\<in>{3..<i}. em_category (ms ! j) = em_category (ms ! 0)"
    by blast
  ultimately have "apply_diversity ms = list_insert 2 (ms ! i) (list_pop i ms)"
    by (intro apply_diversity_moved)
  with insert_pop_shape [OF i(1,2)] moved_shape(1) [OF i(1,2)] show ?thesis by simp
qed

section \<open>Tier classification\<close>

lemma tier_of_top_score_cases:
  "(tier_of_top_score s = SOULMATE \<longleftrightarrow> 0.87 < s)
   \<and> (tier_of_top_score s = FALLBACK \<longleftrightarrow> s < 0.55)
   \<and> (tier_of_top_score s = EXPLORER \<longleftrightarrow> 0.55 \<le> s \<and> s \<le> 0.87)"
  by (auto simp: tier_of_top_score_def)

text \<open>
  Claim C1. On the vector-search branch (the merged list is not empty and the publish call
  returns) the tier of the returned result is decided by the score of the first entry
  after the diversity pass: SOULMATE exactly when it is above 0.87, FALLBACK exactly when
  it is below 0.55, EXPLORER otherwise. So 0.87 and 0.55 give EXPLORER, 0.871 gives
  SOULMATE and 0.549 gives FALLBACK. The diversity pass leaves the first entry in place,
  so this is also the score of the first merged entry.
\<close>

theorem tier_from_top_score:
  assumes "sanitize_and_enrich_profile W (ud_bio ud) (ud_interest_tags ud) [] =
             (Inr (sanitized_bio, enriched_tags, pii_removed), calls0)"
    and "generate_embedding W (create_embedding_payload sanitized_bio enriched_tags) = Inr user_vector"
    and "set_user_vector W (ud_user_id ud) user_vector = Inr ()"
    and "filter_communities_by_location W (ud_city ud) (ud_timezone ud) = Inr communities"
    and "communities \<noteq> []"
    and "vector_search W user_vector (map cr_community_id communities) 10 = Inr vector_results"
    and "merge_loop (community_map_of communities) vector_results [] = merged"
    and "merged \<noteq> []"
    and "publish_match_result W (ud_user_id ud)
           (MatchResultDump (ranked_result W task_id ud (apply_diversity merged))) = Inr ()"
  shows "\<exists>r. fst (process_match_task W task_id ud) = MatchResultDump r
     \<and> (mr_tier r = SOULMATE \<longleftrightarrow> em_match_score (apply_diversity merged ! 0) > 0.87)
     \<and> (mr_tier r = FALLBACK \<longleftrightarrow> em_match_score (apply_diversity merged ! 0) < 0.55)
     \<and> (mr_tier r = EXPLORER \<longleftrightarrow>
          0.55 \<le> em_match_score (apply_diversity merged ! 0)
          \<and> em_match_score (apply_diversity merged ! 0) \<le> 0.87)
     \<and> (em_match_score (apply_diversity merged ! 0) = 0.87 \<longrightarrow> mr_tier r = EXPLORER)
     \<and> (em_match_score (apply_diversity merged ! 0) = 0.55 \<longrightarrow> mr_tier r = EXPLORER)
     \<and> (em_match_score (apply_diversity merged ! 0) = 0.871 \<longrightarrow> mr_tier r = SOULMATE)
     \<and> (em_match_score (apply_diversity merged ! 0) = 0.549 \<longrightarrow> mr_tier r = FALLBACK)
     \<and> em_match_score (apply_diversity merged ! 0) = em_match_score (merged ! 0)"
proof -
  let ?R = "ranked_result W task_id ud (apply_diversity merged)"
  let ?top = "em_match_score (apply_diversity merged ! 0)"
  have "try_block W task_id ud [] =
      (Inr (MatchResultDump ?R),
       [CallChat (ud_bio ud) (ud_interest_tags ud),
         CallEmbedding (create_embedding_payload sanitized_bio enriched_tags),
         CallSetUserVector (ud_user_id ud) user_vector,
         CallFilter (ud_city ud) (ud_timezone ud),
         CallVectorSearch user_vector (map cr_community_id communities) 10,
         CallPublish (ud_user_id ud) (MatchResultDump ?R)])"
    using try_block_ranked [OF assms(1-6), of task_id] assms(7-9) by (simp add: Let_def)
  then have run: "fst (process_match_task W task_id ud) = MatchResultDump ?R"
    by (simp add: process_match_task_def)
  have tier: "mr_tier ?R = tier_of_top_score ?top"
    by (simp add: ranked_result_def Let_def)
  have "(mr_tier ?R = SOULMATE \<longleftrightarrow> ?top > 0.87)
     \<and> (mr_tier ?R = FALLBACK \<longleftrightarrow> ?top < 0.55)
     \<and> (mr_tier ?R = EXPLORER \<longleftrightarrow> 0.55 \<le> ?top \<and> ?top \<le> 0.87)
     \<and> (?top = 0.87 \<longrightarrow> mr_tier ?R = EXPLORER)
     \<and> (?top = 0.55 \<longrightarrow> mr_tier ?R = EXPLORER)
     \<and> (?top = 0.871 \<longrightarrow> mr_tier ?R = SOULMATE)
     \<and> (?top = 0.549 \<longrightarrow> mr_tier ?R = FALLBACK)"
    unfolding tier by (auto simp: tier_of_top_score_def)
  moreover have "?top = em_match_score (merged ! 0)" by (simp add: apply_diversity_head)
  ultimately show ?thesis using run by blast
qed

lemma scored_world_front:
  "sanitize_and_enrich_profile (scored_world x) (ud_bio sample_user) (ud_interest_tags sample_user) [] =
     (Inr (of_ascii ''I like chess'', [of_ascii ''chess'', of_ascii ''games''], False), [CallChat (of_ascii ''I like chess'') [of_ascii ''chess'']])"
  "generate_embedding (scored_world x) t = Inr [0.1, 0.2]"
  "set_user_vector (scored_world x) u v = Inr ()"
  "filter_communities_by_location (scored_world x) c z =
     Inr [sample_row ''c1'' ''A'', sample_row ''c2'' ''A'', sample_row ''c3'' ''A'',
          sample_row ''c4'' ''B'', sample_row ''c5'' ''C'', sample_row ''c6'' ''D'']"
  "vector_search (scored_world x) q ids k =
     Inr [sample_vm ''c1'' x, sample_vm ''c2'' 0.50, sample_vm ''zz'' 0.49,
          sample_vm ''c3'' 0.48, sample_vm ''c4'' 0.47, sample_vm ''c5'' 0.46,
          sample_vm ''c6'' 0.45]"
  "publish_match_result (scored_world x) u p = Inr ()"
  by (simp_all add: scored_world_def sanitize_and_enrich_profile_def sample_user_def)

lemma scored_world_merged:
  "merge_loop (community_map_of [sample_row ''c1'' ''A'', sample_row ''c2'' ''A'', sample_row ''c3'' ''A'',
          sample_row ''c4'' ''B'', sample_row ''c5'' ''C'', sample_row ''c6'' ''D''])
     [sample_vm ''c1'' x, sample_vm ''c2'' 0.50, sample_vm ''zz'' 0.49,
          sample_vm ''c3'' 0.48, sample_vm ''c4'' 0.47, sample_vm ''c5'' 0.46,
          sample_vm ''c6'' 0.45] [] =
   [enrich (sample_vm ''c1'' x) (sample_row ''c1'' ''A''),
    enrich (sample_vm ''c2'' 0.50) (sample_row ''c2'' ''A''),
    enrich (sample_vm ''c3'' 0.48) (sample_row ''c3'' ''A''),
    enrich (sample_vm ''c4'' 0.47) (sample_row ''c4'' ''B''),
    enrich (sample_vm ''c5'' 0.46) (sample_row ''c5'' ''C''),
    enrich (sample_vm ''c6'' 0.45) (sample_row ''c6'' ''D'')]"
  by (simp add: sample_row_def sample_vm_def)

text \<open>
  Runs whose best score is 0.87, 0.55, 0.871 and 0.549.
\<close>

theorem tier_from_top_score_witness:
  "(\<exists>r. fst (process_match_task (scored_world 0.87) ''t1'' sample_user) = MatchResultDump r
        \<and> mr_tier r = EXPLORER)
   \<and> (\<exists>r. fst (process_match_task (scored_world 0.55) ''t1'' sample_user) = MatchResultDump r
        \<and> mr_tier r = EXPLORER)
   \<and> (\<exists>r. fst (process_match_task (scored_world 0.871) ''t1'' sample_user) = MatchResultDump r
        \<and> mr_tier r = SOULMATE)
   \<and> (\<exists>r. fst (process_match_task (scored_world 0.549) ''t1'' sample_user) = MatchResultDump r
        \<and> mr_tier r = FALLBACK)"
proof -
  have top: "em_match_score (apply_diversity
       [enrich (sample_vm ''c1'' x) (sample_row ''c1'' ''A''),
        enrich (sample_vm ''c2'' 0.50) (sample_row ''c2'' ''A''),
        enrich (sample_vm ''c3'' 0.48) (sample_row ''c3'' ''A''),
        enrich (sample_vm ''c4'' 0.47) (sample_row ''c4'' ''B''),
        enrich (sample_vm ''c5'' 0.46) (sample_row ''c5'' ''C''),
        enrich (sample_vm ''c6'' 0.45) (sample_row ''c6'' ''D'')] ! 0) = x" for x
    by (simp add: apply_diversity_head enrich_def sample_vm_def)
  have run: "\<exists>r. fst (process_match_task (scored_world x) ''t1'' sample_user) = MatchResultDump r
     \<and> (x = 0.87 \<longrightarrow> mr_tier r = EXPLORER)
     \<and> (x = 0.55 \<longrightarrow> mr_tier r = EXPLORER)
     \<and> (x = 0.871 \<longrightarrow> mr_tier r = SOULMATE)
     \<and> (x = 0.549 \<longrightarrow> mr_tier r = FALLBACK)" for x
    using tier_from_top_score [where task_id = "''t1''", OF scored_world_front(1,2,3,4) _
        scored_world_front(5) scored_world_merged _ scored_world_front(6), of x]
    unfolding top by blast
  from run [of "0.87"] run [of "0.55"] run [of "0.871"] run [of "0.549"] show ?thesis by simp
qed

section \<open>The structural-fallback branch\<close>

lemma basic_pii_removal_other_embedding:
  "basic_pii_removal (W\<lparr>generate_embedding := g\<rparr>) = basic_pii_removal W"
proof -
  have "is_word (W\<lparr>generate_embedding := g\<rparr>) = is_word W"
    "is_digit (W\<lparr>generate_embedding := g\<rparr>) = is_digit W"
    by (rule ext, simp add: is_word_def is_digit_def)+
  then show ?thesis
    by (intro ext) (simp add: basic_pii_removal_def email_pattern_def phone_pattern_def)
qed

text \<open>
  Claim C5. When the location filter returns no candidates, the run calls the popular
  fetch and never the vector search; if that fetch returns, the result has tier FALLBACK
  and one match of score 0.0 for each popular row, and it is the same result for any other
  embedding vector.
\<close>

theorem empty_candidates_take_fallback_branch:
  assumes "sanitize_and_enrich_profile W (ud_bio ud) (ud_interest_tags ud) [] =
             (Inr (sanitized_bio, enriched_tags, pii_removed), calls0)"
    and "generate_embedding W (create_embedding_payload sanitized_bio enriched_tags) = Inr user_vector"
    and "set_user_vector W (ud_user_id ud) user_vector = Inr ()"
    and "filter_communities_by_location W (ud_city ud) (ud_timezone ud) = Inr []"
  shows "snd (process_match_task W task_id ud) =
       [CallChat (ud_bio ud) (ud_interest_tags ud),
        CallEmbedding (create_embedding_payload sanitized_bio enriched_tags),
        CallSetUserVector (ud_user_id ud) user_vector,
        CallFilter (ud_city ud) (ud_timezone ud),
        CallPopular]
     \<and> CallPopular \<in> set (snd (process_match_task W task_id ud))
     \<and> (\<forall>q ids k. CallVectorSearch q ids k \<notin> set (snd (process_match_task W task_id ud)))
     \<and> (\<forall>popular. get_popular_communities W = Inr popular \<longrightarrow>
          (\<exists>r. fst (process_match_task W task_id ud) = MatchResultDump r
             \<and> mr_tier r = FALLBACK
             \<and> length (mr_matches r) = length popular
             \<and> map cm_community_id (mr_matches r) = map pr_community_id popular
             \<and> (\<forall>m\<in>set (mr_matches r). cm_match_score m = 0.0)
             \<and> (\<forall>embed other_vector.
                   embed (create_embedding_payload sanitized_bio enriched_tags) = Inr other_vector
                   \<and> set_user_vector W (ud_user_id ud) other_vector = Inr ()
                   \<longrightarrow> fst (process_match_task (W\<lparr>generate_embedding := embed\<rparr>) task_id ud)
                       = MatchResultDump r)))"
proof -
  note tb = try_block_fallback [OF assms, of task_id]
  have calls: "snd (process_match_task W task_id ud) =
       [CallChat (ud_bio ud) (ud_interest_tags ud),
        CallEmbedding (create_embedding_payload sanitized_bio enriched_tags),
        CallSetUserVector (ud_user_id ud) user_vector,
        CallFilter (ud_city ud) (ud_timezone ud),
        CallPopular]"
    by (simp add: process_match_task_def tb split: sum.splits)
  have res: "\<exists>r. fst (process_match_task W task_id ud) = MatchResultDump r
             \<and> mr_tier r = FALLBACK
             \<and> length (mr_matches r) = length popular
             \<and> map cm_community_id (mr_matches r) = map pr_community_id popular
             \<and> (\<forall>m\<in>set (mr_matches r). cm_match_score m = 0.0)
             \<and> (\<forall>embed other_vector.
                   embed (create_embedding_payload sanitized_bio enriched_tags) = Inr other_vector
                   \<and> set_user_vector W (ud_user_id ud) other_vector = Inr ()
                   \<longrightarrow> fst (process_match_task (W\<lparr>generate_embedding := embed\<rparr>) task_id ud)
                       = MatchResultDump r)"
    if pop: "get_popular_communities W = Inr popular" for popular
  proof -
    let ?r = "fallback_result W task_id ud popular"
    have r: "fst (process_match_task W task_id ud) = MatchResultDump ?r"
      by (simp add: process_match_task_def tb pop)
    have other: "fst (process_match_task (W\<lparr>generate_embedding := embed\<rparr>) task_id ud) = MatchResultDump ?r"
      if e: "embed (create_embedding_payload sanitized_bio enriched_tags) = Inr other_vector"
        and c: "set_user_vector W (ud_user_id ud) other_vector = Inr ()"
      for embed other_vector
    proof -
      let ?W = "W\<lparr>generate_embedding := embed\<rparr>"
      have s: "sanitize_and_enrich_profile ?W (ud_bio ud) (ud_interest_tags ud) [] =
                 (Inr (sanitized_bio, enriched_tags, pii_removed), calls0)"
        using assms(1)
        by (auto simp: sanitize_and_enrich_profile_def basic_pii_removal_other_embedding
              split: sum.splits)
      have "try_block ?W task_id ud [] =
         (Inr (MatchResultDump (fallback_result ?W task_id ud popular)),
          [CallChat (ud_bio ud) (ud_interest_tags ud),
           CallEmbedding (create_embedding_payload sanitized_bio enriched_tags),
           CallSetUserVector (ud_user_id ud) other_vector,
           CallFilter (ud_city ud) (ud_timezone ud),
           CallPopular])"
        using try_block_fallback [OF s, of other_vector task_id] e c assms(4) pop by simp
      moreover have "fallback_result ?W task_id ud popular = ?r"
        by (simp add: fallback_result_def)
      ultimately show ?thesis by (simp add: process_match_task_def)
    qed
    have "mr_tier ?r = FALLBACK" "length (mr_matches ?r) = length popular"
      "map cm_community_id (mr_matches ?r) = map pr_community_id popular"
      "\<forall>m\<in>set (mr_matches ?r). cm_match_score m = 0.0"
      by (auto simp: fallback_result_def CommunityMatch_of_popular_def)
    with r other show ?thesis by blast
  qed
  from calls res show ?thesis by simp
qed

text \<open>
  A run in a city without candidates, and the same run with another embedding.
\<close>

theorem empty_candidates_take_fallback_branch_witness:
  "filter_communities_by_location empty_city_world (ud_city sample_user) (ud_timezone sample_user) = Inr []
   \<and> (\<exists>r. fst (process_match_task empty_city_world ''t1'' sample_user) = MatchResultDump r
        \<and> mr_tier r = FALLBACK
        \<and> (\<forall>m\<in>set (mr_matches r). cm_match_score m = 0.0)
        \<and> fst (process_match_task (empty_city_world\<lparr>generate_embedding := (\<lambda>t. Inr [0.9, 0.9, 0.9])\<rparr>)
               ''t1'' sample_user) = MatchResultDump r)
   \<and> snd (process_match_task empty_city_world ''t1'' sample_user) =
       [CallChat (of_ascii ''I like chess'') [of_ascii ''chess''],
        CallEmbedding (create_embedding_payload (of_ascii ''I like chess'') [of_ascii ''chess'', of_ascii ''games'']),
        CallSetUserVector ''u1'' [0.1, 0.2],
        CallFilter ''Austin'' ''CST'',
        CallPopular]"
proof -
  have h1: "sanitize_and_enrich_profile empty_city_world (ud_bio sample_user) (ud_interest_tags sample_user) [] =
     (Inr (of_ascii ''I like chess'', [of_ascii ''chess'', of_ascii ''games''], False), [CallChat (of_ascii ''I like chess'') [of_ascii ''chess'']])"
    by (simp add: sanitize_and_enrich_profile_def sample_defs empty_city_world_def)
  have h2: "generate_embedding empty_city_world (create_embedding_payload (of_ascii ''I like chess'') [of_ascii ''chess'', of_ascii ''games''])
      = Inr [0.1, 0.2]"
    by (simp add: sample_defs empty_city_world_def)
  have h3: "set_user_vector empty_city_world (ud_user_id sample_user) v = Inr ()" for v
    by (simp add: sample_defs empty_city_world_def)
  have h4: "filter_communities_by_location empty_city_world (ud_city sample_user) (ud_timezone sample_user) = Inr []"
    by (simp add: sample_defs empty_city_world_def)
  have h5: "get_popular_communities empty_city_world =
     Inr [sample_popular ''p1'', sample_popular ''p2'', sample_popular ''p3'',
              sample_popular ''p4'', sample_popular ''p5'', sample_popular ''p6'']"
    by (simp add: sample_defs empty_city_world_def)
  note t = empty_candidates_take_fallback_branch [OF h1 h2 h3 h4, of "''t1''"]
  note t4 = t [THEN conjunct2, THEN conjunct2, THEN conjunct2, rule_format, OF h5]
  from t4 obtain r where
    r: "fst (process_match_task empty_city_world ''t1'' sample_user) = MatchResultDump r
       \<and> mr_tier r = FALLBACK
       \<and> length (mr_matches r) = length [sample_popular ''p1'', sample_popular ''p2'', sample_popular ''p3'',
              sample_popular ''p4'', sample_popular ''p5'', sample_popular ''p6'']
       \<and> map cm_community_id (mr_matches r) = map pr_community_id [sample_popular ''p1'', sample_popular ''p2'', sample_popular ''p3'',
              sample_popular ''p4'', sample_popular ''p5'', sample_popular ''p6'']
       \<and> (\<forall>m\<in>set (mr_matches r). cm_match_score m = 0.0)
       \<and> (\<forall>embed other_vector.
           embed (create_embedding_payload (of_ascii ''I like chess'') [of_ascii ''chess'', of_ascii ''games'']) = Inr other_vector
           \<and> set_user_vector empty_city_world (ud_user_id sample_user) other_vector = Inr ()
           \<longrightarrow> fst (process_match_task (empty_city_world\<lparr>generate_embedding := embed\<rparr>) ''t1'' sample_user)
               = MatchResultDump r)"
    by (rule exE)
  note r1 = r [THEN conjunct1]
  note r2 = r [THEN conjunct2, THEN conjunct1]
  note r5 = r [THEN conjunct2, THEN conjunct2, THEN conjunct2, THEN conjunct2, THEN conjunct1]
  note r6 = r [THEN conjunct2, THEN conjunct2, THEN conjunct2, THEN conjunct2, THEN conjunct2, rule_format]
  have o: "fst (process_match_task (empty_city_world\<lparr>generate_embedding := (\<lambda>t. Inr [0.9, 0.9, 0.9])\<rparr>)
               ''t1'' sample_user) = MatchResultDump r"
    by (rule r6 [of "\<lambda>t. Inr [0.9, 0.9, 0.9]" "[0.9, 0.9, 0.9]"]) (simp add: h3)
  have c: "snd (process_match_task empty_city_world ''t1'' sample_user) =
       [CallChat (of_ascii ''I like chess'') [of_ascii ''chess''],
        CallEmbedding (create_embedding_payload (of_ascii ''I like chess'') [of_ascii ''chess'', of_ascii ''games'']),
        CallSetUserVector ''u1'' [0.1, 0.2],
        CallFilter ''Austin'' ''CST'',
        CallPopular]"
    using t [THEN conjunct1] by (simp add: sample_user_def)
  show ?thesis
    apply (intro conjI)
      apply (rule h4)
     apply (rule exI [of _ r])
     apply (intro conjI r1 r2 r5 o)
    apply (rule c)
    done
qed

section \<open>The empty merge\<close>

text \<open>
  Claim C6. On the vector-search branch, when no vector match has its community id in the
  candidate map, the merged list is empty and the task returns the failure payload with
  the error "No matching communities after merge" (nothing is published). The
  empty-candidate case is another outcome: there the task returns the fallback result.
\<close>

theorem empty_merge_is_fatal:
  "(sanitize_and_enrich_profile W (ud_bio ud) (ud_interest_tags ud) [] =
       (Inr (sanitized_bio, enriched_tags, pii_removed), calls0)
     \<and> generate_embedding W (create_embedding_payload sanitized_bio enriched_tags) = Inr user_vector
     \<and> set_user_vector W (ud_user_id ud) user_vector = Inr ()
     \<and> filter_communities_by_location W (ud_city ud) (ud_timezone ud) = Inr communities
     \<and> communities \<noteq> []
     \<and> vector_search W user_vector (map cr_community_id communities) 10 = Inr vector_results
     \<and> (\<forall>v\<in>set vector_results. vm_community_id v \<notin> dom (community_map_of communities))
     \<longrightarrow> merge_loop (community_map_of communities) vector_results [] = []
       \<and> process_match_task W task_id ud =
           (FailureDict task_id ''failed'' ''No matching communities after merge'',
            [CallChat (ud_bio ud) (ud_interest_tags ud),
             CallEmbedding (create_embedding_payload sanitized_bio enriched_tags),
             CallSetUserVector (ud_user_id ud) user_vector,
             CallFilter (ud_city ud) (ud_timezone ud),
             CallVectorSearch user_vector (map cr_community_id communities) 10]))
   \<and>
   (sanitize_and_enrich_profile W (ud_bio ud) (ud_interest_tags ud) [] =
       (Inr (sanitized_bio, enriched_tags, pii_removed), calls0)
     \<and> generate_embedding W (create_embedding_payload sanitized_bio enriched_tags) = Inr user_vector
     \<and> set_user_vector W (ud_user_id ud) user_vector = Inr ()
     \<and> filter_communities_by_location W (ud_city ud) (ud_timezone ud) = Inr []
     \<and> get_popular_communities W = Inr popular
     \<longrightarrow> fst (process_match_task W task_id ud) = MatchResultDump (fallback_result W task_id ud popular)
       \<and> fst (process_match_task W task_id ud)
           \<noteq> FailureDict task_id ''failed'' ''No matching communities after merge'')"
proof (intro conjI impI)
  assume a: "sanitize_and_enrich_profile W (ud_bio ud) (ud_interest_tags ud) [] =
       (Inr (sanitized_bio, enriched_tags, pii_removed), calls0)
     \<and> generate_embedding W (create_embedding_payload sanitized_bio enriched_tags) = Inr user_vector
     \<and> set_user_vector W (ud_user_id ud) user_vector = Inr ()
     \<and> filter_communities_by_location W (ud_city ud) (ud_timezone ud) = Inr communities
     \<and> communities \<noteq> []
     \<and> vector_search W user_vector (map cr_community_id communities) 10 = Inr vector_results
     \<and> (\<forall>v\<in>set vector_results. vm_community_id v \<notin> dom (community_map_of communities))"
  then have "\<forall>v\<in>set vector_results. community_map_of communities (vm_community_id v) = None"
    by (simp add: domIff)
  then show m: "merge_loop (community_map_of communities) vector_results [] = []"
    by (simp add: merge_loop_empty_iff)
  from a have "try_block W task_id ud [] =
      (Inr (FailureDict task_id ''failed'' ''No matching communities after merge''),
            [CallChat (ud_bio ud) (ud_interest_tags ud),
             CallEmbedding (create_embedding_payload sanitized_bio enriched_tags),
             CallSetUserVector (ud_user_id ud) user_vector,
             CallFilter (ud_city ud) (ud_timezone ud),
             CallVectorSearch user_vector (map cr_community_id communities) 10])"
    using try_block_ranked [of W ud sanitized_bio enriched_tags pii_removed calls0 user_vector
        communities vector_results task_id] m
    by (simp add: Let_def)
  then show "process_match_task W task_id ud =
           (FailureDict task_id ''failed'' ''No matching communities after merge'',
            [CallChat (ud_bio ud) (ud_interest_tags ud),
             CallEmbedding (create_embedding_payload sanitized_bio enriched_tags),
             CallSetUserVector (ud_user_id ud) user_vector,
             CallFilter (ud_city ud) (ud_timezone ud),
             CallVectorSearch user_vector (map cr_community_id communities) 10])"
    by (simp add: process_match_task_def)
next
  assume b: "sanitize_and_enrich_profile W (ud_bio ud) (ud_interest_tags ud) [] =
       (Inr (sanitized_bio, enriched_tags, pii_removed), calls0)
     \<and> generate_embedding W (create_embedding_payload sanitized_bio enriched_tags) = Inr user_vector
     \<and> set_user_vector W (ud_user_id ud) user_vector = Inr ()
     \<and> filter_communities_by_location W (ud_city ud) (ud_timezone ud) = Inr []
     \<and> get_popular_communities W = Inr popular"
  then show r: "fst (process_match_task W task_id ud) = MatchResultDump (fallback_result W task_id ud popular)"
    using try_block_fallback [of W ud sanitized_bio enriched_tags pii_removed calls0 user_vector task_id]
    by (simp add: process_match_task_def)
  show "fst (process_match_task W task_id ud)
           \<noteq> FailureDict task_id ''failed'' ''No matching communities after merge''"
    by (simp add: r)
qed

text \<open>
  A run whose ranker returns only unknown ids, and a run without candidates.
\<close>

theorem empty_merge_is_fatal_witness:
  "process_match_task no_overlap_world ''t1'' sample_user =
     (FailureDict ''t1'' ''failed'' ''No matching communities after merge'',
      [CallChat (of_ascii ''I like chess'') [of_ascii ''chess''],
       CallEmbedding (create_embedding_payload (of_ascii ''I like chess'') [of_ascii ''chess'', of_ascii ''games'']),
       CallSetUserVector ''u1'' [0.1, 0.2],
       CallFilter ''Austin'' ''CST'',
       CallVectorSearch [0.1, 0.2] [''c1'', ''c2'', ''c3'', ''c4'', ''c5'', ''c6''] 10])
   \<and> fst (process_match_task empty_city_world ''t1'' sample_user)
       \<noteq> FailureDict ''t1'' ''failed'' ''No matching communities after merge''"
proof -
  let ?cs = "[sample_row ''c1'' ''A'', sample_row ''c2'' ''A'', sample_row ''c3'' ''A'',
              sample_row ''c4'' ''B'', sample_row ''c5'' ''C'', sample_row ''c6'' ''D'']"
  let ?vs = "[sample_vm ''x1'' 0.9, sample_vm ''x2'' 0.8]"
  let ?ps = "[sample_popular ''p1'', sample_popular ''p2'', sample_popular ''p3'',
              sample_popular ''p4'', sample_popular ''p5'', sample_popular ''p6'']"
  have a: "sanitize_and_enrich_profile no_overlap_world (ud_bio sample_user) (ud_interest_tags sample_user) [] =
       (Inr (of_ascii ''I like chess'', [of_ascii ''chess'', of_ascii ''games''], False), [CallChat (of_ascii ''I like chess'') [of_ascii ''chess'']])
     \<and> generate_embedding no_overlap_world (create_embedding_payload (of_ascii ''I like chess'') [of_ascii ''chess'', of_ascii ''games'']) = Inr [0.1, 0.2]
     \<and> set_user_vector no_overlap_world (ud_user_id sample_user) [0.1, 0.2] = Inr ()
     \<and> filter_communities_by_location no_overlap_world (ud_city sample_user) (ud_timezone sample_user) = Inr ?cs
     \<and> ?cs \<noteq> []
     \<and> vector_search no_overlap_world [0.1, 0.2] (map cr_community_id ?cs) 10 = Inr ?vs
     \<and> (\<forall>v\<in>set ?vs. vm_community_id v \<notin> dom (community_map_of ?cs))"
    unfolding community_map_of_dom
    by (simp add: sanitize_and_enrich_profile_def sample_defs no_overlap_world_def)
  have b: "sanitize_and_enrich_profile empty_city_world (ud_bio sample_user) (ud_interest_tags sample_user) [] =
       (Inr (of_ascii ''I like chess'', [of_ascii ''chess'', of_ascii ''games''], False), [CallChat (of_ascii ''I like chess'') [of_ascii ''chess'']])
     \<and> generate_embedding empty_city_world (create_embedding_payload (of_ascii ''I like chess'') [of_ascii ''chess'', of_ascii ''games'']) = Inr [0.1, 0.2]
     \<and> set_user_vector empty_city_world (ud_user_id sample_user) [0.1, 0.2] = Inr ()
     \<and> filter_communities_by_location empty_city_world (ud_city sample_user) (ud_timezone sample_user) = Inr []
     \<and> get_popular_communities empty_city_world = Inr ?ps"
    by (simp add: sanitize_and_enrich_profile_def sample_defs empty_city_world_def)
  have "process_match_task no_overlap_world ''t1'' sample_user =
     (FailureDict ''t1'' ''failed'' ''No matching communities after merge'',
      [CallChat (of_ascii ''I like chess'') [of_ascii ''chess''],
       CallEmbedding (create_embedding_payload (of_ascii ''I like chess'') [of_ascii ''chess'', of_ascii ''games'']),
       CallSetUserVector ''u1'' [0.1, 0.2],
       CallFilter ''Austin'' ''CST'',
       CallVectorSearch [0.1, 0.2] [''c1'', ''c2'', ''c3'', ''c4'', ''c5'', ''c6''] 10])"
    using empty_merge_is_fatal [where task_id = "''t1''", THEN conjunct1, rule_format, OF a, THEN conjunct2]
    by (simp add: sample_user_def sample_row_def)
  moreover have "fst (process_match_task empty_city_world ''t1'' sample_user)
       \<noteq> FailureDict ''t1'' ''failed'' ''No matching communities after merge''"
    by (rule empty_merge_is_fatal [where task_id = "''t1''", THEN conjunct2, rule_format, OF b, THEN conjunct2])
  ultimately show ?thesis by (rule conjI)
qed

section \<open>The outer handler and the result size\<close>

lemma try_block_returns_shape:
  "try_block W task_id ud [] = (Inr p, calls) \<Longrightarrow>
     (\<exists>r. p = MatchResultDump r \<and> mr_task_id r = task_id \<and> mr_user_id r = ud_user_id ud)
     \<or> p = FailureDict task_id ''failed'' ''No matching communities after merge''"
  by (auto simp: try_block_def and_then_def invoke_def returns_def Let_def
        sanitize_and_enrich_profile_def fallback_result_def ranked_result_def
      split: sum.splits prod.splits if_splits)

lemma try_block_embedding_raises:
  assumes "sanitize_and_enrich_profile W (ud_bio ud) (ud_interest_tags ud) [] =
             (Inr (sanitized_bio, enriched_tags, pii_removed), calls0)"
    and "generate_embedding W (create_embedding_payload sanitized_bio enriched_tags) = Inl e"
  shows "try_block W task_id ud [] =
     (Inl e, [CallChat (ud_bio ud) (ud_interest_tags ud),
              CallEmbedding (create_embedding_payload sanitized_bio enriched_tags)])"
proof -
  have "calls0 = [CallChat (ud_bio ud) (ud_interest_tags ud)]"
    using sanitize_calls [OF assms(1)] by simp
  with assms show ?thesis
    by (simp add: try_block_def and_then_def invoke_def returns_def Let_def)
qed

text \<open>
  Claim C7, amended. Whatever the collaborators do (return or raise an exception), the task
  returns a payload: a match result carrying the task id and the user id, or a failure
  dictionary with the task id and the status "failed". An exception that leaves the
  \<^verbatim>\<open>try\<close> block gives the failure dictionary whose error is \<^verbatim>\<open>str(e)\<close>, whatever that
  string is; so does a failing embedding provider, after two calls.
\<close>

theorem task_returns_payload:
  "((\<exists>r. fst (process_match_task W task_id ud) = MatchResultDump r
         \<and> mr_task_id r = task_id \<and> mr_user_id r = ud_user_id ud)
     \<or> (\<exists>err. fst (process_match_task W task_id ud) = FailureDict task_id ''failed'' err))
   \<and> (\<forall>e calls. try_block W task_id ud [] = (Inl e, calls) \<longrightarrow>
         process_match_task W task_id ud = (FailureDict task_id ''failed'' (exn_str e), calls))
   \<and> (\<forall>sanitized_bio enriched_tags pii_removed calls0 e.
         sanitize_and_enrich_profile W (ud_bio ud) (ud_interest_tags ud) [] =
             (Inr (sanitized_bio, enriched_tags, pii_removed), calls0)
         \<and> generate_embedding W (create_embedding_payload sanitized_bio enriched_tags) = Inl e
         \<longrightarrow> process_match_task W task_id ud =
               (FailureDict task_id ''failed'' (exn_str e),
                [CallChat (ud_bio ud) (ud_interest_tags ud),
                 CallEmbedding (create_embedding_payload sanitized_bio enriched_tags)]))"
proof (intro conjI allI impI)
  show "(\<exists>r. fst (process_match_task W task_id ud) = MatchResultDump r
         \<and> mr_task_id r = task_id \<and> mr_user_id r = ud_user_id ud)
     \<or> (\<exists>err. fst (process_match_task W task_id ud) = FailureDict task_id ''failed'' err)"
  proof (cases "try_block W task_id ud []")
    case (Pair res calls)
    show ?thesis
    proof (cases res)
      case (Inl e)
      with Pair have "fst (process_match_task W task_id ud) = FailureDict task_id ''failed'' (exn_str e)"
        by (simp add: process_match_task_def)
      then show ?thesis by simp
    next
      case (Inr p)
      with Pair have "fst (process_match_task W task_id ud) = p"
        by (simp add: process_match_task_def)
      moreover from Pair Inr have "try_block W task_id ud [] = (Inr p, calls)" by simp
      note try_block_returns_shape [OF this]
      ultimately show ?thesis by auto
    qed
  qed
next
  fix e calls
  assume "try_block W task_id ud [] = (Inl e, calls)"
  then show "process_match_task W task_id ud = (FailureDict task_id ''failed'' (exn_str e), calls)"
    by (simp add: process_match_task_def)
next
  fix sanitized_bio enriched_tags pii_removed calls0 e
  assume "sanitize_and_enrich_profile W (ud_bio ud) (ud_interest_tags ud) [] =
             (Inr (sanitized_bio, enriched_tags, pii_removed), calls0)
         \<and> generate_embedding W (create_embedding_payload sanitized_bio enriched_tags) = Inl e"
  then have "try_block W task_id ud [] =
     (Inl e, [CallChat (ud_bio ud) (ud_interest_tags ud),
              CallEmbedding (create_embedding_payload sanitized_bio enriched_tags)])"
    using try_block_embedding_raises by blast
  then show "process_match_task W task_id ud =
               (FailureDict task_id ''failed'' (exn_str e),
                [CallChat (ud_bio ud) (ud_interest_tags ud),
                 CallEmbedding (create_embedding_payload sanitized_bio enriched_tags)])"
    by (simp add: process_match_task_def)
qed

text \<open>
  A run whose embedding provider raises.
\<close>

theorem task_returns_payload_witness:
  "process_match_task embedding_down_world ''t1'' sample_user =
     (FailureDict ''t1'' ''failed'' ''embedding provider unavailable'',
      [CallChat (of_ascii ''I like chess'') [of_ascii ''chess''],
       CallEmbedding (create_embedding_payload (of_ascii ''I like chess'') [of_ascii ''chess'', of_ascii ''games''])])"
proof -
  have h: "sanitize_and_enrich_profile embedding_down_world (ud_bio sample_user) (ud_interest_tags sample_user) [] =
       (Inr (of_ascii ''I like chess'', [of_ascii ''chess'', of_ascii ''games''], False), [CallChat (of_ascii ''I like chess'') [of_ascii ''chess'']])
     \<and> generate_embedding embedding_down_world (create_embedding_payload (of_ascii ''I like chess'') [of_ascii ''chess'', of_ascii ''games''])
         = Inl (Exception ''embedding provider unavailable'')"
    by (simp add: sanitize_and_enrich_profile_def sample_defs embedding_down_world_def)
  show ?thesis
    using task_returns_payload [where task_id = "''t1''", THEN conjunct2, THEN conjunct2, rule_format, OF h]
    by (simp add: sample_user_def)
qed

text \<open>
  The error string is \<^verbatim>\<open>str(e)\<close>, which is empty for an exception raised without a
  message: the claim's non-empty error string fails there.
\<close>

theorem error_string_may_be_empty:
  "fst (process_match_task silent_embedding_world ''t1'' sample_user) = FailureDict ''t1'' ''failed'' []
   \<and> fd_error (fst (process_match_task silent_embedding_world ''t1'' sample_user)) = []"
  by (simp add: run_defs sample_defs silent_embedding_world_def)

lemma ranked_matches_at_most_5: "length (mr_matches (ranked_result W task_id ud enriched_results)) \<le> 5"
  by (simp add: ranked_result_def Let_def)

text \<open>
  Claim C3, at a failing input. The vector-search branch cuts the matches to five
  (\<open>ranked_matches_at_most_5\<close>); the fallback branch returns one match for every
  popular row. With six popular rows the success payload has six matches.
\<close>

theorem fallback_branch_returns_six_matches:
  "fst (process_match_task empty_city_world ''t1'' sample_user) =
     MatchResultDump (fallback_result empty_city_world ''t1'' sample_user
       [sample_popular ''p1'', sample_popular ''p2'', sample_popular ''p3'',
        sample_popular ''p4'', sample_popular ''p5'', sample_popular ''p6''])
   \<and> length (mr_matches (fallback_result empty_city_world ''t1'' sample_user
       [sample_popular ''p1'', sample_popular ''p2'', sample_popular ''p3'',
        sample_popular ''p4'', sample_popular ''p5'', sample_popular ''p6''])) = 6"
  by (simp add: run_defs sample_defs empty_city_world_def)

text \<open>
  Claim C9, at a failing input. The fallback branch returns before the publish call: the
  run without candidates ends with the popular fetch, while the run of the vector-search
  branch ends by publishing the result it returns.
\<close>

theorem fallback_branch_does_not_publish:
  "snd (process_match_task empty_city_world ''t1'' sample_user) =
     [CallChat (of_ascii ''I like chess'') [of_ascii ''chess''],
      CallEmbedding (create_embedding_payload (of_ascii ''I like chess'') [of_ascii ''chess'', of_ascii ''games'']),
      CallSetUserVector ''u1'' [0.1, 0.2],
      CallFilter ''Austin'' ''CST'',
      CallPopular]
   \<and> last (snd (process_match_task sample_world ''t1'' sample_user)) =
       CallPublish ''u1'' (fst (process_match_task sample_world ''t1'' sample_user))"
  by (simp add: run_defs sample_defs empty_city_world_def)

section \<open>Failing side effects\<close>

lemma try_block_cache_raises:
  assumes "sanitize_and_enrich_profile W (ud_bio ud) (ud_interest_tags ud) [] =
             (Inr (sanitized_bio, enriched_tags, pii_removed), calls0)"
    and "generate_embedding W (create_embedding_payload sanitized_bio enriched_tags) = Inr user_vector"
    and "set_user_vector W (ud_user_id ud) user_vector = Inl e"
  shows "try_block W task_id ud [] =
     (Inl e, [CallChat (ud_bio ud) (ud_interest_tags ud),
              CallEmbedding (create_embedding_payload sanitized_bio enriched_tags),
              CallSetUserVector (ud_user_id ud) user_vector])"
proof -
  have "calls0 = [CallChat (ud_bio ud) (ud_interest_tags ud)]"
    using sanitize_calls [OF assms(1)] by simp
  with assms show ?thesis
    by (simp add: try_block_def and_then_def invoke_def returns_def Let_def)
qed

text \<open>
  Claim C4, amended. The cache write and the publish call are inside the \<^verbatim>\<open>try\<close> block
  without a handler of their own. When the cache write raises, no further call is made
  and the task returns the failure payload with that exception's message; when the
  publish call raises, the task returns the failure payload as well; the success payload
  is returned when the publish call returns.
\<close>

theorem side_effect_failure_fails_task:
  "(sanitize_and_enrich_profile W (ud_bio ud) (ud_interest_tags ud) [] =
       (Inr (sanitized_bio, enriched_tags, pii_removed), calls0)
     \<and> generate_embedding W (create_embedding_payload sanitized_bio enriched_tags) = Inr user_vector
     \<and> set_user_vector W (ud_user_id ud) user_vector = Inl e
     \<longrightarrow> process_match_task W task_id ud =
           (FailureDict task_id ''failed'' (exn_str e),
            [CallChat (ud_bio ud) (ud_interest_tags ud),
             CallEmbedding (create_embedding_payload sanitized_bio enriched_tags),
             CallSetUserVector (ud_user_id ud) user_vector]))
   \<and>
   (sanitize_and_enrich_profile W (ud_bio ud) (ud_interest_tags ud) [] =
       (Inr (sanitized_bio, enriched_tags, pii_removed), calls0)
     \<and> generate_embedding W (create_embedding_payload sanitized_bio enriched_tags) = Inr user_vector
     \<and> set_user_vector W (ud_user_id ud) user_vector = Inr ()
     \<and> filter_communities_by_location W (ud_city ud) (ud_timezone ud) = Inr communities
     \<and> communities \<noteq> []
     \<and> vector_search W user_vector (map cr_community_id communities) 10 = Inr vector_results
     \<and> merge_loop (community_map_of communities) vector_results [] \<noteq> []
     \<longrightarrow> (\<forall>e'. publish_match_result W (ud_user_id ud)
                 (MatchResultDump (ranked_result W task_id ud
                    (apply_diversity (merge_loop (community_map_of communities) vector_results []))))
               = Inl e'
              \<longrightarrow> fst (process_match_task W task_id ud) = FailureDict task_id ''failed'' (exn_str e'))
         \<and> (publish_match_result W (ud_user_id ud)
                 (MatchResultDump (ranked_result W task_id ud
                    (apply_diversity (merge_loop (community_map_of communities) vector_results []))))
               = Inr ()
              \<longrightarrow> fst (process_match_task W task_id ud) =
                    MatchResultDump (ranked_result W task_id ud
                      (apply_diversity (merge_loop (community_map_of communities) vector_results [])))))"
proof (intro conjI impI allI)
  assume "sanitize_and_enrich_profile W (ud_bio ud) (ud_interest_tags ud) [] =
       (Inr (sanitized_bio, enriched_tags, pii_removed), calls0)
     \<and> generate_embedding W (create_embedding_payload sanitized_bio enriched_tags) = Inr user_vector
     \<and> set_user_vector W (ud_user_id ud) user_vector = Inl e"
  then have "try_block W task_id ud [] =
     (Inl e, [CallChat (ud_bio ud) (ud_interest_tags ud),
              CallEmbedding (create_embedding_payload sanitized_bio enriched_tags),
              CallSetUserVector (ud_user_id ud) user_vector])"
    using try_block_cache_raises by blast
  then show "process_match_task W task_id ud =
           (FailureDict task_id ''failed'' (exn_str e),
            [CallChat (ud_bio ud) (ud_interest_tags ud),
             CallEmbedding (create_embedding_payload sanitized_bio enriched_tags),
             CallSetUserVector (ud_user_id ud) user_vector])"
    by (simp add: process_match_task_def)
next
  fix e'
  assume a: "sanitize_and_enrich_profile W (ud_bio ud) (ud_interest_tags ud) [] =
       (Inr (sanitized_bio, enriched_tags, pii_removed), calls0)
     \<and> generate_embedding W (create_embedding_payload sanitized_bio enriched_tags) = Inr user_vector
     \<and> set_user_vector W (ud_user_id ud) user_vector = Inr ()
     \<and> filter_communities_by_location W (ud_city ud) (ud_timezone ud) = Inr communities
     \<and> communities \<noteq> []
     \<and> vector_search W user_vector (map cr_community_id communities) 10 = Inr vector_results
     \<and> merge_loop (community_map_of communities) vector_results [] \<noteq> []"
  assume p: "publish_match_result W (ud_user_id ud)
                 (MatchResultDump (ranked_result W task_id ud
                    (apply_diversity (merge_loop (community_map_of communities) vector_results []))))
               = Inl e'"
  from a p show "fst (process_match_task W task_id ud) = FailureDict task_id ''failed'' (exn_str e')"
    using try_block_ranked [of W ud sanitized_bio enriched_tags pii_removed calls0 user_vector
        communities vector_results task_id]
    by (simp add: process_match_task_def Let_def)
next
  assume a: "sanitize_and_enrich_profile W (ud_bio ud) (ud_interest_tags ud) [] =
       (Inr (sanitized_bio, enriched_tags, pii_removed), calls0)
     \<and> generate_embedding W (create_embedding_payload sanitized_bio enriched_tags) = Inr user_vector
     \<and> set_user_vector W (ud_user_id ud) user_vector = Inr ()
     \<and> filter_communities_by_location W (ud_city ud) (ud_timezone ud) = Inr communities
     \<and> communities \<noteq> []
     \<and> vector_search W user_vector (map cr_community_id communities) 10 = Inr vector_results
     \<and> merge_loop (community_map_of communities) vector_results [] \<noteq> []"
  assume p: "publish_match_result W (ud_user_id ud)
                 (MatchResultDump (ranked_result W task_id ud
                    (apply_diversity (merge_loop (community_map_of communities) vector_results []))))
               = Inr ()"
  from a p show "fst (process_match_task W task_id ud) =
                    MatchResultDump (ranked_result W task_id ud
                      (apply_diversity (merge_loop (community_map_of communities) vector_results [])))"
    using try_block_ranked [of W ud sanitized_bio enriched_tags pii_removed calls0 user_vector
        communities vector_results task_id]
    by (simp add: process_match_task_def Let_def)
qed

text \<open>
  A run whose cache write raises and a run whose publish call raises.
\<close>

theorem side_effect_failure_fails_task_witness:
  "process_match_task cache_down_world ''t1'' sample_user =
     (FailureDict ''t1'' ''failed'' ''cache down'',
      [CallChat (of_ascii ''I like chess'') [of_ascii ''chess''],
       CallEmbedding (create_embedding_payload (of_ascii ''I like chess'') [of_ascii ''chess'', of_ascii ''games'']),
       CallSetUserVector ''u1'' [0.1, 0.2]])
   \<and> fst (process_match_task publish_down_world ''t1'' sample_user) =
       FailureDict ''t1'' ''failed'' ''broker down''"
proof -
  let ?cs = "[sample_row ''c1'' ''A'', sample_row ''c2'' ''A'', sample_row ''c3'' ''A'',
              sample_row ''c4'' ''B'', sample_row ''c5'' ''C'', sample_row ''c6'' ''D'']"
  let ?vs = "[sample_vm ''c1'' 0.91, sample_vm ''c2'' 0.50, sample_vm ''zz'' 0.49,
              sample_vm ''c3'' 0.48, sample_vm ''c4'' 0.47, sample_vm ''c5'' 0.46,
              sample_vm ''c6'' 0.45]"
  have a: "sanitize_and_enrich_profile cache_down_world (ud_bio sample_user) (ud_interest_tags sample_user) [] =
       (Inr (of_ascii ''I like chess'', [of_ascii ''chess'', of_ascii ''games''], False), [CallChat (of_ascii ''I like chess'') [of_ascii ''chess'']])
     \<and> generate_embedding cache_down_world (create_embedding_payload (of_ascii ''I like chess'') [of_ascii ''chess'', of_ascii ''games'']) = Inr [0.1, 0.2]
     \<and> set_user_vector cache_down_world (ud_user_id sample_user) [0.1, 0.2] = Inl (Exception ''cache down'')"
    by (simp add: sanitize_and_enrich_profile_def sample_defs cache_down_world_def publish_down_world_def)
  have m: "merge_loop (community_map_of ?cs) ?vs [] \<noteq> []"
    by (simp add: sample_row_def sample_vm_def)
  have b: "sanitize_and_enrich_profile publish_down_world (ud_bio sample_user) (ud_interest_tags sample_user) [] =
       (Inr (of_ascii ''I like chess'', [of_ascii ''chess'', of_ascii ''games''], False), [CallChat (of_ascii ''I like chess'') [of_ascii ''chess'']])
     \<and> generate_embedding publish_down_world (create_embedding_payload (of_ascii ''I like chess'') [of_ascii ''chess'', of_ascii ''games'']) = Inr [0.1, 0.2]
     \<and> set_user_vector publish_down_world (ud_user_id sample_user) [0.1, 0.2] = Inr ()
     \<and> filter_communities_by_location publish_down_world (ud_city sample_user) (ud_timezone sample_user) = Inr ?cs
     \<and> ?cs \<noteq> []
     \<and> vector_search publish_down_world [0.1, 0.2] (map cr_community_id ?cs) 10 = Inr ?vs
     \<and> merge_loop (community_map_of ?cs) ?vs [] \<noteq> []"
  proof (intro conjI)
    show "merge_loop (community_map_of ?cs) ?vs [] \<noteq> []" by (rule m)
  qed (simp_all add: sanitize_and_enrich_profile_def sample_defs cache_down_world_def publish_down_world_def)
  have p: "publish_match_result publish_down_world u x = Inl (Exception ''broker down'')" for u x
    by (simp add: sample_defs cache_down_world_def publish_down_world_def)
  have "process_match_task cache_down_world ''t1'' sample_user =
     (FailureDict ''t1'' ''failed'' ''cache down'',
      [CallChat (of_ascii ''I like chess'') [of_ascii ''chess''],
       CallEmbedding (create_embedding_payload (of_ascii ''I like chess'') [of_ascii ''chess'', of_ascii ''games'']),
       CallSetUserVector ''u1'' [0.1, 0.2]])"
    using side_effect_failure_fails_task [where task_id = "''t1''", THEN conjunct1, rule_format, OF a]
    by (simp add: sample_user_def)
  moreover have "fst (process_match_task publish_down_world ''t1'' sample_user) =
       FailureDict ''t1'' ''failed'' ''broker down''"
    by (rule side_effect_failure_fails_task [where task_id = "''t1''", THEN conjunct2, rule_format, OF b,
        THEN conjunct1, rule_format, OF p, simplified exn.sel])
  ultimately show ?thesis by (rule conjI)
qed

text \<open>
  With a failing cache write, or a failing publish call, the task does not return the
  payload of the run in which the side effect succeeds.
\<close>

theorem side_effect_failure_not_swallowed:
  "fst (process_match_task cache_down_world ''t1'' sample_user) = FailureDict ''t1'' ''failed'' ''cache down''
   \<and> fst (process_match_task publish_down_world ''t1'' sample_user) = FailureDict ''t1'' ''failed'' ''broker down''
   \<and> fst (process_match_task sample_world ''t1'' sample_user) \<noteq>
       fst (process_match_task cache_down_world ''t1'' sample_user)
   \<and> fst (process_match_task sample_world ''t1'' sample_user) \<noteq>
       fst (process_match_task publish_down_world ''t1'' sample_user)"
  by (simp add: run_defs sample_defs cache_down_world_def publish_down_world_def)

section \<open>Recovery of the profile sanitisation\<close>

subsection \<open>Character classes\<close>

lemmas class_defs =
  is_upper_def is_lower_def is_ascii_digit_def is_alpha_def is_local_def is_domain_def
  is_sep_def is_digit_def is_word_def in_range_def one_of_def of_ascii_def










lemma at_not_domain: "one_of ''@'' c \<Longrightarrow> \<not> is_domain c"
  by (auto simp: class_defs)


lemma markers_have_no_at:
  "\<forall>c\<in>set (of_ascii ''[email removed]''). \<not> one_of ''@'' c"
  "\<forall>c\<in>set (of_ascii ''[phone removed]''). \<not> one_of ''@'' c"
  by (simp_all add: class_defs)

subsection \<open>Runs and ends\<close>

lemma run_length_zero_iff: "run_length p s i = 0 \<longleftrightarrow> \<not> (i < length s \<and> p (s ! i))"
proof (cases "i < length s")
  case True
  then have "drop i s = s ! i # drop (Suc i) s" by (simp add: Cons_nth_drop_Suc)
  then show ?thesis using True by (simp add: run_length_def)
next
  case False
  then show ?thesis by (simp add: run_length_def)
qed




lemma run_length_at_least:
  "\<forall>c\<in>set xs. p c \<Longrightarrow> length xs \<le> run_length p (xs @ ys) 0"
  by (simp add: run_length_def takeWhile_append2)


lemma item_ends_ge: "e \<in> set (item_ends a s i) \<Longrightarrow> i \<le> e"
  by (cases a) (auto split: if_splits)

lemma match_ends_ge: "e \<in> set (match_ends pat s i) \<Longrightarrow> i \<le> e"
proof (induction pat arbitrary: i)
  case Nil
  then show ?case by simp
next
  case (Cons a pat)
  then obtain x where "x \<in> set (item_ends a s i)" "e \<in> set (match_ends pat s x)" by auto
  with Cons.IH item_ends_ge show ?case by (meson le_trans)
qed


lemma match_ends_needs_Exactly:
  "\<forall>x. i \<le> x \<and> x < length s \<longrightarrow> \<not> p (s ! x) \<Longrightarrow> 0 < k \<Longrightarrow>
   match_ends (pre @ Exactly k p # rest) s i = []"
proof (induction pre arbitrary: i)
  case Nil
  then have "run_length p s i = 0" by (simp add: run_length_zero_iff)
  with Nil show ?case by simp
next
  case (Cons a pre)
  have "match_ends (pre @ Exactly k p # rest) s x = []" if "x \<in> set (item_ends a s i)" for x
  proof -
    from that have "i \<le> x" by (rule item_ends_ge)
    with Cons.prems have "\<forall>y. x \<le> y \<and> y < length s \<longrightarrow> \<not> p (s ! y)" by auto
    then show ?thesis using Cons.prems(2) by (rule Cons.IH)
  qed
  then show ?case by simp
qed

subsection \<open>The substitution\<close>





subsection \<open>A phone number in plain surroundings\<close>





subsection \<open>An e-mail address in plain surroundings\<close>




















subsection \<open>Runs on concrete text\<close>


text \<open>
  A phone number right after the letter U+00E9: there is no word boundary before the first
  digit, the pattern does not match and the text stays as it is.
\<close>

lemma basic_pii_removal_after_letter:
  "basic_pii_removal sample_world (0xE9 # of_ascii ''555-123-4567'') = 0xE9 # of_ascii ''555-123-4567''"
  by code_simp


end
